theory Spec2Isabelle
  imports Main "HOL-Library.Word"
begin

unbundle bit_operations_syntax

section \<open>The mint bot: data model\<close>

text \<open>
  The embedding follows \<^verbatim>\<open>server2.js\<close> (vault codec, \<^verbatim>\<open>sendMonadMintTx\<close>, transaction
  history) and the second bot variant (\<^verbatim>\<open>mintNFT\<close>). JavaScript exceptions are values
  of \<open>js_error\<close>; everything the code reads or writes outside its own variables (files,
  the logger, the chat, the remote ledger, the clock) is a field of the record \<open>world\<close>,
  as are the global variables \<^verbatim>\<open>wallets\<close> and \<^verbatim>\<open>contract\<close> (\<open>None\<close> is \<^verbatim>\<open>undefined\<close>, \<open>Some a\<close>
  the contract object for address \<open>a\<close>).
\<close>

datatype js_error = Error string | TypeError string | SyntaxError string

fun message :: "js_error \<Rightarrow> string" where
  "message (Error m) = m"
| "message (TypeError m) = m"
| "message (SyntaxError m) = m"

subsection \<open>Transaction history records\<close>

datatype tx_status = success | failed

text \<open>The object literals handed to \<^verbatim>\<open>saveTxHistory\<close> (lines 201 and 209): a field that
  the literal does not have is \<open>None\<close>.\<close>

record tx_record =
  address :: string
  txHash :: "string option"
  error :: "string option"
  status :: tx_status

text \<open>\<^verbatim>\<open>{ ...tx, timestamp: Date.now() }\<close>\<close>

record ledger_entry = tx_record +
  timestamp :: nat

text \<open>What \<^verbatim>\<open>fs.existsSync\<close> and \<^verbatim>\<open>JSON.parse(fs.readFileSync(txHistoryPath))\<close> can find:
  no file, a file whose reading or parsing throws (or whose value has no \<^verbatim>\<open>push\<close>), or an
  array of entries, oldest first.\<close>

datatype txfile = NoFile | Unreadable js_error | History "ledger_entry list"

datatype log_level = info | warn | error_level

subsection \<open>Transactions and the remote ledger\<close>

text \<open>The transaction object built at lines 181--189. \<^verbatim>\<open>mintNFT\<close> builds it without a
  nonce.\<close>

record tx =
  from_addr :: string
  to_addr :: string
  call_data :: string
  gas :: nat
  gasPrice :: nat
  chainId :: nat
  nonce :: "nat option"

text \<open>The requests that reach the remote ledger, in the order it handles them. A signed
  transaction carries its envelope.\<close>

datatype rpc =
    GetTransactionCount string
  | GetBalance string
  | SendSignedTransaction tx string

datatype chat_target = Chat int | Channel string

subsection \<open>The persisted vault\<close>

text \<open>The object \<^verbatim>\<open>encryptWallets\<close> returns and \<^verbatim>\<open>JSON.parse\<close> of \<^verbatim>\<open>wallets.enc\<close> yields:
  four hex strings. A field the object does not have (\<^verbatim>\<open>undefined\<close>) is \<open>None\<close>.\<close>

record vault =
  iv :: "string option"
  salt :: "string option"
  encryptedData :: "string option"
  hmac :: "string option"

text \<open>What \<^verbatim>\<open>fs.existsSync(walletsPath)\<close> and \<^verbatim>\<open>JSON.parse(fs.readFileSync(walletsPath))\<close>
  can find: no file, a file whose reading or parsing throws, or a vault object.\<close>

datatype walletsfile = NoWallets | BadWallets js_error | Stored vault

subsection \<open>The world\<close>

record 'r world =
  remote :: 'r
  rpc_log :: "rpc list"
  chat :: "(chat_target \<times> string) list"
  logger :: "(log_level \<times> string) list"
  txfile :: txfile
  clock :: nat
  walletsfile :: walletsfile
  wallets :: "string list"
  contract :: "string option"

section \<open>Transaction history (lines 213--241)\<close>

text \<open>\<^verbatim>\<open>Array.prototype.slice(start)\<close> with one integer argument: a negative start counts
  from the end, and both ends are clamped. \<^verbatim>\<open>-0\<close> is \<open>0\<close>.\<close>

definition js_slice :: "'a list \<Rightarrow> int \<Rightarrow> 'a list" where
  "js_slice xs start =
     (let n = int (length xs);
          k = (if start < 0 then max (n + start) 0 else min start n)
      in drop (nat k) xs)"

definition stamp :: "tx_record \<Rightarrow> nat \<Rightarrow> ledger_entry" where
  "stamp tx t =
     \<lparr>address = address tx, txHash = txHash tx, error = error tx, status = status tx,
      timestamp = t\<rparr>"

definition log_line :: "log_level \<Rightarrow> string \<Rightarrow> 'r world \<Rightarrow> 'r world" where
  "log_line lvl m w = w\<lparr>logger := logger w @ [(lvl, m)]\<rparr>"

text \<open>Lines 220--223: push the entry, then keep the last 100 when there are more.\<close>

definition push_capped :: "ledger_entry list \<Rightarrow> ledger_entry \<Rightarrow> ledger_entry list" where
  "push_capped history e =
     (let history1 = history @ [e]
      in if length history1 > 100 then js_slice history1 (- 100) else history1)"

text \<open>\<^verbatim>\<open>saveTxHistory(tx)\<close>. The \<^verbatim>\<open>catch\<close> only logs. Writing the file is taken to succeed.\<close>

definition saveTxHistory :: "tx_record \<Rightarrow> 'r world \<Rightarrow> 'r world" where
  "saveTxHistory tx w =
     (case txfile w of
        NoFile \<Rightarrow> w\<lparr>txfile := History (push_capped [] (stamp tx (clock w)))\<rparr>
      | History history \<Rightarrow> w\<lparr>txfile := History (push_capped history (stamp tx (clock w)))\<rparr>
      | Unreadable e \<Rightarrow>
          log_line error_level (''Failed to save transaction history: '' @ message e) w)"

text \<open>\<^verbatim>\<open>getTxHistory(limit = 10)\<close>: \<open>None\<close> is the call without an argument.\<close>

definition getTxHistory :: "int option \<Rightarrow> 'r world \<Rightarrow> ledger_entry list \<times> 'r world" where
  "getTxHistory limit_arg w =
     (let limit = (case limit_arg of None \<Rightarrow> 10 | Some l \<Rightarrow> l)
      in case txfile w of
           History history \<Rightarrow> (rev (js_slice history (- limit)), w)
         | NoFile \<Rightarrow> ([], w)
         | Unreadable e \<Rightarrow>
             ([], log_line error_level
                    (''Failed to retrieve transaction history: '' @ message e) w))"

text \<open>A run of appends: each result is saved when the clock shows the paired time.\<close>

fun append_all :: "(tx_record \<times> nat) list \<Rightarrow> 'r world \<Rightarrow> 'r world" where
  "append_all [] w = w"
| "append_all ((tx, t) # rest) w = append_all rest (saveTxHistory tx (w\<lparr>clock := t\<rparr>))"

definition entries :: "'r world \<Rightarrow> ledger_entry list" where
  "entries w = (case txfile w of History h \<Rightarrow> h | _ \<Rightarrow> [])"

definition stamps :: "(tx_record \<times> nat) list \<Rightarrow> ledger_entry list" where
  "stamps xs = map (\<lambda>(tx, t). stamp tx t) xs"

definition last_n :: "nat \<Rightarrow> 'a list \<Rightarrow> 'a list" where
  "last_n n xs = drop (length xs - n) xs"

definition readable :: "'r world \<Rightarrow> bool" where
  "readable w = (case txfile w of Unreadable e \<Rightarrow> False | _ \<Rightarrow> True)"

section \<open>Vault codec (lines 76--137)\<close>

type_synonym bytes = "8 word list"

subsection \<open>Library functions taken as parameters\<close>

text \<open>
  The primitives of Node's \<^verbatim>\<open>crypto\<close> module and \<^verbatim>\<open>JSON\<close> are not code of the
  repository; the model takes them as the fields of one record. The credential
  collection is a list of private-key strings.
  \<^item> \<open>scryptSync password salt\<close> is \<^verbatim>\<open>crypto.scryptSync(password, salt, 32)\<close>;
  \<^item> \<open>hmac_sha256 key s\<close> is the digest of \<^verbatim>\<open>crypto.createHmac('sha256', key).update(s)\<close>;
  \<^item> \<open>aes_encrypt_block key b\<close> and \<open>aes_decrypt_block key b\<close> are AES-256 on one
    16-byte block; the CBC chaining and the padding around them are modelled below;
  \<^item> \<open>JSON_stringify\<close> and \<open>JSON_parse\<close>, the latter with its \<^verbatim>\<open>SyntaxError\<close>.
\<close>

record node_lib =
  scryptSync :: "string \<Rightarrow> bytes \<Rightarrow> bytes"
  hmac_sha256 :: "bytes \<Rightarrow> string \<Rightarrow> bytes"
  aes_encrypt_block :: "bytes \<Rightarrow> bytes \<Rightarrow> bytes"
  aes_decrypt_block :: "bytes \<Rightarrow> bytes \<Rightarrow> bytes"
  JSON_stringify :: "string list \<Rightarrow> string"
  JSON_parse :: "string \<Rightarrow> js_error + string list"

subsection \<open>Buffers, hex and UTF-8\<close>

text \<open>A \<open>char\<close> of HOL is a byte: a JavaScript string is represented by its UTF-8
  bytes, so encoding and decoding a string only change the type.\<close>

definition byte_of_char :: "char \<Rightarrow> 8 word" where
  "byte_of_char c = of_nat (of_char c)"

definition char_of_byte :: "8 word \<Rightarrow> char" where
  "char_of_byte b = char_of (unat b)"

definition utf8_encode :: "string \<Rightarrow> bytes" where
  "utf8_encode s = map byte_of_char s"

definition utf8_decode :: "bytes \<Rightarrow> string" where
  "utf8_decode bs = map char_of_byte bs"

definition hex_digit :: "nat \<Rightarrow> char" where
  "hex_digit n = ''0123456789abcdef'' ! n"

text \<open>\<^verbatim>\<open>buf.toString('hex')\<close>: two lower-case digits for each byte.\<close>

definition hex_of_byte :: "8 word \<Rightarrow> string" where
  "hex_of_byte b = [hex_digit (unat b div 16), hex_digit (unat b mod 16)]"

definition toString_hex :: "bytes \<Rightarrow> string" where
  "toString_hex bs = concat (map hex_of_byte bs)"

definition hex_value :: "char \<Rightarrow> nat option" where
  "hex_value c =
     (let n = (of_char c :: nat) in
      if 48 \<le> n \<and> n \<le> 57 then Some (n - 48)
      else if 97 \<le> n \<and> n \<le> 102 then Some (n - 87)
      else if 65 \<le> n \<and> n \<le> 70 then Some (n - 55)
      else None)"

text \<open>Decoding hex, as \<^verbatim>\<open>Buffer.from(s, 'hex')\<close> and \<^verbatim>\<open>decipher.update(s, 'hex', ...)\<close> do:
  pairs of digits, stopping at the first pair that is not hex; a trailing single
  character is dropped.\<close>

fun hex_decode :: "string \<Rightarrow> bytes" where
  "hex_decode (a # b # rest) =
     (case hex_value a of
        None \<Rightarrow> []
      | Some h \<Rightarrow>
          (case hex_value b of
             None \<Rightarrow> []
           | Some l \<Rightarrow> of_nat (16 * h + l) # hex_decode rest))"
| "hex_decode _ = []"

text \<open>\<^verbatim>\<open>Buffer.from(x, 'hex')\<close> throws a \<^verbatim>\<open>TypeError\<close> when \<open>x\<close> is \<^verbatim>\<open>undefined\<close>.\<close>

definition Buffer_from_hex :: "string option \<Rightarrow> js_error + bytes" where
  "Buffer_from_hex x =
     (case x of
        None \<Rightarrow> Inl (TypeError ''The first argument must be of type string or an instance of Buffer, ArrayBuffer, or Array or an Array-like Object. Received undefined'')
      | Some s \<Rightarrow> Inr (hex_decode s))"

text \<open>\<^verbatim>\<open>crypto.randomBytes(n)\<close>: the next \<open>n\<close> bytes of the system's entropy source, which
  is an infinite sequence of bytes; the rest of the sequence is returned with them.\<close>

definition randomBytes :: "nat \<Rightarrow> (nat \<Rightarrow> 8 word) \<Rightarrow> bytes \<times> (nat \<Rightarrow> 8 word)" where
  "randomBytes n rng = (map rng [0..<n], \<lambda>i. rng (i + n))"

subsection \<open>AES-256-CBC with PKCS#7 padding\<close>

definition xor_bytes :: "bytes \<Rightarrow> bytes \<Rightarrow> bytes" where
  "xor_bytes a b = map2 (XOR) a b"

definition pkcs7_pad :: "bytes \<Rightarrow> bytes" where
  "pkcs7_pad m = (let n = 16 - length m mod 16 in m @ replicate n (of_nat n))"

definition pkcs7_unpad :: "bytes \<Rightarrow> js_error + bytes" where
  "pkcs7_unpad m =
     (let n = unat (last m) in
      if m = [] \<or> n = 0 \<or> 16 < n \<or> length m < n
         \<or> drop (length m - n) m \<noteq> replicate n (last m)
      then Inl (Error ''bad decrypt'')
      else Inr (take (length m - n) m))"

fun cbc_encrypt :: "(bytes \<Rightarrow> bytes) \<Rightarrow> bytes \<Rightarrow> bytes \<Rightarrow> bytes" where
  "cbc_encrypt E prev m =
     (if m = [] then []
      else let c = E (xor_bytes (take 16 m) prev) in c @ cbc_encrypt E c (drop 16 m))"

fun cbc_decrypt :: "(bytes \<Rightarrow> bytes) \<Rightarrow> bytes \<Rightarrow> bytes \<Rightarrow> bytes" where
  "cbc_decrypt D prev c =
     (if c = [] then []
      else xor_bytes (D (take 16 c)) prev @ cbc_decrypt D (take 16 c) (drop 16 c))"

declare cbc_encrypt.simps [simp del] cbc_decrypt.simps [simp del]

text \<open>\<^verbatim>\<open>createCipheriv('aes-256-cbc', key, iv)\<close>, \<^verbatim>\<open>update\<close> and \<^verbatim>\<open>final\<close> together. The key
  comes from \<^verbatim>\<open>scryptSync(..., 32)\<close> and the IV from \<^verbatim>\<open>randomBytes(16)\<close>, so the length
  checks of \<^verbatim>\<open>createCipheriv\<close> pass.\<close>

definition aes_256_cbc_encrypt :: "node_lib \<Rightarrow> bytes \<Rightarrow> bytes \<Rightarrow> bytes \<Rightarrow> bytes" where
  "aes_256_cbc_encrypt L key iv_bytes m =
     cbc_encrypt (aes_encrypt_block L key) iv_bytes (pkcs7_pad m)"

text \<open>\<^verbatim>\<open>createDecipheriv('aes-256-cbc', key, iv)\<close>, \<^verbatim>\<open>update\<close> and \<^verbatim>\<open>final\<close>: an IV that is
  not 16 bytes, a ciphertext that is empty or not whole blocks, and bad padding throw.\<close>

definition aes_256_cbc_decrypt :: "node_lib \<Rightarrow> bytes \<Rightarrow> bytes \<Rightarrow> bytes \<Rightarrow> js_error + bytes" where
  "aes_256_cbc_decrypt L key iv_bytes c =
     (if length iv_bytes \<noteq> 16 then Inl (TypeError ''Invalid initialization vector'')
      else if c = [] \<or> length c mod 16 \<noteq> 0 then Inl (Error ''wrong final block length'')
      else pkcs7_unpad (cbc_decrypt (aes_decrypt_block L key) iv_bytes c))"

subsection \<open>The codec\<close>

definition encryptWallets :: "node_lib \<Rightarrow> (nat \<Rightarrow> 8 word) \<Rightarrow> string list \<Rightarrow> string \<Rightarrow> vault" where
  "encryptWallets L rng data password =
     (let (iv_bytes, rng1) = randomBytes 16 rng;
          (salt_bytes, rng2) = randomBytes 16 rng1;
          key = scryptSync L password salt_bytes;
          encrypted =
            toString_hex (aes_256_cbc_encrypt L key iv_bytes (utf8_encode (JSON_stringify L data)));
          hmac_hex = toString_hex (hmac_sha256 L key encrypted)
      in \<lparr>iv = Some (toString_hex iv_bytes), salt = Some (toString_hex salt_bytes),
          encryptedData = Some encrypted, hmac = Some hmac_hex\<rparr>)"

definition IntegrityError :: js_error where
  "IntegrityError = Error ''Data integrity check failed. Possible tampering detected.''"

text \<open>\<^verbatim>\<open>decryptWallets(encryptedData, password)\<close>, statement by statement. \<^verbatim>\<open>hmac.update\<close>
  throws a \<^verbatim>\<open>TypeError\<close> on \<^verbatim>\<open>undefined\<close>; \<^verbatim>\<open>hmac !== encryptedData.hmac\<close> is true when the
  stored field is \<^verbatim>\<open>undefined\<close>.\<close>

definition decryptWallets :: "node_lib \<Rightarrow> vault \<Rightarrow> string \<Rightarrow> js_error + string list" where
  "decryptWallets L v password =
     (case Buffer_from_hex (iv v) of
        Inl e \<Rightarrow> Inl e
      | Inr iv_bytes \<Rightarrow>
     (case Buffer_from_hex (salt v) of
        Inl e \<Rightarrow> Inl e
      | Inr salt_bytes \<Rightarrow>
     (let key = scryptSync L password salt_bytes in
      case encryptedData v of
        None \<Rightarrow> Inl (TypeError ''The data argument must be of type string or an instance of Buffer, TypedArray, or DataView. Received undefined'')
      | Some ciphertext \<Rightarrow>
     (let hmac_hex = toString_hex (hmac_sha256 L key ciphertext) in
      if Some hmac_hex \<noteq> hmac v then Inl IntegrityError
      else
        (case aes_256_cbc_decrypt L key iv_bytes (hex_decode ciphertext) of
           Inl e \<Rightarrow> Inl e
         | Inr plain \<Rightarrow> JSON_parse L (utf8_decode plain))))))"

text \<open>Lines 98--103 for a vault that has its \<^verbatim>\<open>salt\<close> and \<^verbatim>\<open>encryptedData\<close>: the HMAC
  recomputed under the key derived from the password, and whether the stored \<^verbatim>\<open>hmac\<close> is
  that value.\<close>

definition recomputed_hmac :: "node_lib \<Rightarrow> vault \<Rightarrow> string \<Rightarrow> string" where
  "recomputed_hmac L v password =
     toString_hex
       (hmac_sha256 L (scryptSync L password (hex_decode (the (salt v)))) (the (encryptedData v)))"

definition stored_mac_matches :: "node_lib \<Rightarrow> vault \<Rightarrow> string \<Rightarrow> bool" where
  "stored_mac_matches L v password = (hmac v = Some (recomputed_hmac L v password))"

subsection \<open>Loading the vault at start-up\<close>

fun digits :: "nat \<Rightarrow> string" where
  "digits n = (if n < 10 then [hex_digit n] else digits (n div 10) @ [hex_digit (n mod 10)])"

declare digits.simps [simp del]

text \<open>\<^verbatim>\<open>loadWallets()\<close>; the password is \<^verbatim>\<open>CONFIG.ENCRYPTION_PASSWORD\<close>.\<close>

definition loadWallets :: "node_lib \<Rightarrow> string \<Rightarrow> 'r world \<Rightarrow> 'r world" where
  "loadWallets L password w =
     (case walletsfile w of
        NoWallets \<Rightarrow> log_line warn ''No wallets found'' w
      | BadWallets e \<Rightarrow>
          (log_line error_level (''Failed to load wallets: '' @ message e) w)\<lparr>wallets := []\<rparr>
      | Stored v \<Rightarrow>
          (case decryptWallets L v password of
             Inr ws \<Rightarrow>
               log_line info (''Loaded '' @ digits (length ws) @ '' wallets'') (w\<lparr>wallets := ws\<rparr>)
           | Inl e \<Rightarrow>
               (log_line error_level (''Failed to load wallets: '' @ message e) w)
                 \<lparr>wallets := []\<rparr>))"

section \<open>Submitting a mint transaction (lines 175--211, 249--257)\<close>

subsection \<open>Configuration, library and endpoint\<close>

text \<open>\<^verbatim>\<open>CONFIG\<close>. The \<^verbatim>\<open>/mint\<close> handler reads \<^verbatim>\<open>CONFIG.WALLETS\<close>, which the object literal of
  \<^verbatim>\<open>server2.js\<close> does not define; the list is a field here, as in the second variant.\<close>

record config =
  EXPLORER_URL :: string
  CHAIN_ID :: nat
  GAS_PRICE :: nat
  GAS_LIMIT :: nat
  CONTRACT_ADDRESS :: string
  ADMIN_ID :: int
  WALLETS :: "string list"
  CHANNEL_ID :: string

text \<open>What a settled \<^verbatim>\<open>sendSignedTransaction\<close> raced against the 60000 ms timer gives: a
  receipt with its transaction hash, a rejection, or nothing before the timer fires.\<close>

datatype send_reply = Receipt string | Refused js_error | NoReply

text \<open>
  The \<^verbatim>\<open>web3\<close> library and the RPC endpoint behind it are parameters. The endpoint has
  a state of its own (type \<open>'r\<close>), which every request may change.
  \<^item> \<open>privateKeyToAccount key\<close>: the account's address, or the error thrown;
  \<^item> \<open>signTransaction key tx\<close>: the raw signed transaction, or the error;
  \<^item> \<open>encodeABI_mint\<close>: \<^verbatim>\<open>contract.methods.mint().encodeABI()\<close>;
  \<^item> \<open>getTransactionCount r a\<close>, \<open>getBalance r a\<close>, \<open>sendSignedTransaction r tx raw\<close>:
    the reply and the endpoint's next state.
\<close>

record 'r web3 =
  privateKeyToAccount :: "string \<Rightarrow> js_error + string"
  signTransaction :: "string \<Rightarrow> tx \<Rightarrow> js_error + string"
  encodeABI_mint :: string
  getTransactionCount :: "'r \<Rightarrow> string \<Rightarrow> (js_error + nat) \<times> 'r"
  getBalance :: "'r \<Rightarrow> string \<Rightarrow> (js_error + nat) \<times> 'r"
  sendSignedTransaction :: "'r \<Rightarrow> tx \<Rightarrow> string \<Rightarrow> send_reply \<times> 'r"

text \<open>The Telegram message a handler receives: \<^verbatim>\<open>msg.chat.id\<close> and \<^verbatim>\<open>msg.from.id\<close>.\<close>

record msg =
  chat_id :: int
  from_id :: int

text \<open>\<^verbatim>\<open>bot.sendMessage(chatId, text)\<close>; the promise it returns is not awaited. Emoji are
  left out of the message texts.\<close>

definition sendMessage :: "int \<Rightarrow> string \<Rightarrow> 'r world \<Rightarrow> 'r world" where
  "sendMessage cid text w = w\<lparr>chat := chat w @ [(Chat cid, text)]\<rparr>"

subsection \<open>\<^verbatim>\<open>sendMonadMintTx\<close> as a coroutine\<close>

text \<open>
  An \<^verbatim>\<open>async\<close> function runs until its next \<^verbatim>\<open>await\<close> and is resumed when the awaited
  promise settles. A call of \<^verbatim>\<open>sendMonadMintTx\<close> is therefore in one of these states: at
  one of its three \<^verbatim>\<open>await\<close>s (with \<^verbatim>\<open>retryCount\<close> and the local variables it has by then),
  or settled.
\<close>

datatype call =
    AwaitNonce nat string
  | AwaitSign nat string tx
  | AwaitSend nat string tx string
  | Resolved "string option"
  | Rejected js_error

definition mint_tx :: "'r web3 \<Rightarrow> config \<Rightarrow> string \<Rightarrow> nat option \<Rightarrow> tx" where
  "mint_tx W cfg a n =
     \<lparr>from_addr = a, to_addr = CONTRACT_ADDRESS cfg, call_data = encodeABI_mint W,
      gas = GAS_LIMIT cfg, gasPrice = GAS_PRICE cfg, chainId = CHAIN_ID cfg, nonce = n\<rparr>"

text \<open>
  \<open>start\<close> is the call \<^verbatim>\<open>sendMonadMintTx(walletKey, msg, retryCount)\<close> up to its first
  \<^verbatim>\<open>await\<close> (lines 178--179); \<open>on_error\<close> is the \<^verbatim>\<open>catch\<close> block (lines 203--210), whose
  recursive call runs \<open>start\<close> at once. The second \<^verbatim>\<open>privateKeyToAccount\<close> (line 209)
  stands inside the \<^verbatim>\<open>catch\<close> block: when it throws, the promise rejects.
\<close>

function start :: "'r web3 \<Rightarrow> config \<Rightarrow> string \<Rightarrow> msg \<Rightarrow> nat \<Rightarrow> 'r world \<Rightarrow> call \<times> 'r world"
  and on_error :: "'r web3 \<Rightarrow> config \<Rightarrow> string \<Rightarrow> msg \<Rightarrow> js_error \<Rightarrow> nat \<Rightarrow> 'r world \<Rightarrow> call \<times> 'r world"
where
  "start W cfg walletKey m retryCount w =
     (case privateKeyToAccount W walletKey of
        Inl e \<Rightarrow> on_error W cfg walletKey m e retryCount w
      | Inr a \<Rightarrow> (AwaitNonce retryCount a, w))"
| "on_error W cfg walletKey m e retryCount w =
     (if retryCount < 2 then
        start W cfg walletKey m (retryCount + 1)
          (sendMessage (chat_id m) (''Retrying ('' @ digits (retryCount + 1) @ ''/2)...'') w)
      else
        (let w1 = sendMessage (chat_id m) (''Final attempt failed: '' @ message e) w
         in case privateKeyToAccount W walletKey of
              Inl e' \<Rightarrow> (Rejected e', w1)
            | Inr a \<Rightarrow>
                (Resolved None,
                 saveTxHistory
                   \<lparr>address = a, txHash = None, error = Some (message e), status = failed\<rparr> w1)))"
  by pat_completeness auto
termination
  by (relation "measure (\<lambda>x. case x of
         Inl (W, cfg, k, m, rc, w) \<Rightarrow> 2 * (2 - rc) + 2
       | Inr (W, cfg, k, m, e, rc, w) \<Rightarrow> 2 * (2 - rc) + 1)") auto

declare start.simps [simp del] on_error.simps [simp del]

text \<open>
  \<open>resume\<close> is the code between one \<^verbatim>\<open>await\<close> and the next, run when the awaited promise
  settles: the endpoint handles the request and the function continues with the reply.
  \<^item> after \<^verbatim>\<open>getTransactionCount\<close>: build \<^verbatim>\<open>tx\<close> (a \<^verbatim>\<open>TypeError\<close> when \<^verbatim>\<open>contract\<close> is
    \<^verbatim>\<open>undefined\<close>) and call \<^verbatim>\<open>signTransaction\<close>;
  \<^item> after \<^verbatim>\<open>signTransaction\<close>: send the raw transaction, racing the timer;
  \<^item> after the race: on a receipt, the success message, the history entry and the
    return; otherwise the \<^verbatim>\<open>catch\<close> block, with \<^verbatim>\<open>Transaction timed out\<close> for the timer.
\<close>

fun resume :: "'r web3 \<Rightarrow> config \<Rightarrow> string \<Rightarrow> msg \<Rightarrow> call \<Rightarrow> 'r world \<Rightarrow> call \<times> 'r world" where
  "resume W cfg walletKey m (AwaitNonce retryCount a) w =
     (let (reply, r1) = getTransactionCount W (remote w) a;
          w1 = w\<lparr>remote := r1, rpc_log := rpc_log w @ [GetTransactionCount a]\<rparr>
      in case reply of
           Inl e \<Rightarrow> on_error W cfg walletKey m e retryCount w1
         | Inr n \<Rightarrow>
             (case contract w1 of
                None \<Rightarrow>
                  on_error W cfg walletKey m
                    (TypeError ''Cannot read properties of undefined (reading methods)'')
                    retryCount w1
              | Some c \<Rightarrow> (AwaitSign retryCount a (mint_tx W cfg a (Some n)), w1)))"
| "resume W cfg walletKey m (AwaitSign retryCount a t) w =
     (case signTransaction W walletKey t of
        Inl e \<Rightarrow> on_error W cfg walletKey m e retryCount w
      | Inr raw \<Rightarrow> (AwaitSend retryCount a t raw, w))"
| "resume W cfg walletKey m (AwaitSend retryCount a t raw) w =
     (let (reply, r1) = sendSignedTransaction W (remote w) t raw;
          w1 = w\<lparr>remote := r1, rpc_log := rpc_log w @ [SendSignedTransaction t raw]\<rparr>
      in case reply of
           Receipt h \<Rightarrow>
             (Resolved (Some h),
              saveTxHistory \<lparr>address = a, txHash = Some h, error = None, status = success\<rparr>
                (sendMessage (chat_id m)
                   (''Mint successful!'' @ [CHR 0x0A] @ EXPLORER_URL cfg @ h) w1))
         | Refused e \<Rightarrow> on_error W cfg walletKey m e retryCount w1
         | NoReply \<Rightarrow> on_error W cfg walletKey m (Error ''Transaction timed out'') retryCount w1)"
| "resume W cfg walletKey m (Resolved v) w = (Resolved v, w)"
| "resume W cfg walletKey m (Rejected e) w = (Rejected e, w)"

fun settled :: "call \<Rightarrow> bool" where
  "settled (Resolved v) = True"
| "settled (Rejected e) = True"
| "settled t = False"

text \<open>The number of resumptions a call can still need: three for each attempt left.\<close>

fun steps_left :: "call \<Rightarrow> nat" where
  "steps_left (AwaitNonce rc a) = 3 * (2 - rc) + 3"
| "steps_left (AwaitSign rc a t) = 3 * (2 - rc) + 2"
| "steps_left (AwaitSend rc a t raw) = 3 * (2 - rc) + 1"
| "steps_left (Resolved v) = 0"
| "steps_left (Rejected e) = 0"

lemma steps_left_start_on_error:
  "steps_left (fst (start W cfg k m rc w)) \<le> 3 * (2 - rc) + 3"
  "steps_left (fst (on_error W cfg k m e rc w)) \<le> 3 * (2 - rc)"
proof (induction W cfg k m rc w and W cfg k m e rc w rule: start_on_error.induct)
  case (1 W cfg k m rc w)
  show ?case
  proof (cases "privateKeyToAccount W k")
    case (Inl e)
    then show ?thesis using "1.IH" [OF Inl] by (simp add: start.simps)
  next
    case (Inr a)
    then show ?thesis by (simp add: start.simps)
  qed
next
  case (2 W cfg k m e rc w)
  show ?case
  proof (cases "rc < 2")
    case True
    then show ?thesis using "2.IH" [OF True] by (simp add: on_error.simps)
  next
    case False
    then show ?thesis by (simp add: on_error.simps Let_def split: sum.splits)
  qed
qed

lemma on_error_steps_less:
  "3 * (2 - rc) < n \<Longrightarrow> steps_left (fst (on_error W cfg k m e rc w)) < n"
  using steps_left_start_on_error(2) [of W cfg k m e rc w] by simp

lemma resume_decreases:
  "\<not> settled t \<Longrightarrow> steps_left (fst (resume W cfg k m t w)) < steps_left t"
  by (cases t)
     (auto simp: Let_def split_beta on_error_steps_less
           split: sum.splits option.splits send_reply.splits)

text \<open>Awaiting the call with nothing else running: it is resumed until it settles.\<close>

function run :: "'r web3 \<Rightarrow> config \<Rightarrow> string \<Rightarrow> msg \<Rightarrow> call \<times> 'r world \<Rightarrow> call \<times> 'r world" where
  "run W cfg walletKey m (t, w) =
     (if settled t then (t, w) else run W cfg walletKey m (resume W cfg walletKey m t w))"
  by pat_completeness auto
termination
proof (relation "measure (\<lambda>(W, cfg, k, m, t, w). steps_left t)")
  show "wf (measure (\<lambda>(W, cfg, k, m, t, w). steps_left t))" by simp
next
  fix W :: "'r web3" and cfg walletKey m t and w :: "'r world"
  assume "\<not> settled t"
  then have "steps_left (fst (resume W cfg walletKey m t w)) < steps_left t"
    by (rule resume_decreases)
  then show "((W, cfg, walletKey, m, resume W cfg walletKey m t w), W, cfg, walletKey, m, t, w)
      \<in> measure (\<lambda>(W, cfg, k, m, t, w). steps_left t)"
    by (simp add: split_beta)
qed

declare run.simps [simp del]

text \<open>\<^verbatim>\<open>await sendMonadMintTx(walletKey, msg)\<close>, with \<^verbatim>\<open>retryCount = 0\<close> by default.\<close>

definition sendMonadMintTx :: "'r web3 \<Rightarrow> config \<Rightarrow> string \<Rightarrow> msg \<Rightarrow> 'r world \<Rightarrow> call \<times> 'r world" where
  "sendMonadMintTx W cfg walletKey m w = run W cfg walletKey m (start W cfg walletKey m 0 w)"

subsection \<open>The \<^verbatim>\<open>/mint\<close> command: all wallets at once\<close>

text \<open>
  \<^verbatim>\<open>CONFIG.WALLETS.map(wallet => sendMonadMintTx(wallet, msg))\<close> calls the function for
  each wallet in turn; each call runs to its first \<^verbatim>\<open>await\<close> before the next begins.
\<close>

fun start_all :: "'r web3 \<Rightarrow> config \<Rightarrow> msg \<Rightarrow> string list \<Rightarrow> 'r world \<Rightarrow> (string \<times> call) list \<times> 'r world" where
  "start_all W cfg m [] w = ([], w)"
| "start_all W cfg m (k # ks) w =
     (let (t, w1) = start W cfg k m 0 w;
          (ts, w2) = start_all W cfg m ks w1
      in ((k, t) # ts, w2))"

text \<open>The calls in flight, and whether the promise of \<^verbatim>\<open>Promise.all\<close> has settled (its
  \<^verbatim>\<open>then\<close> or \<^verbatim>\<open>catch\<close> callback has run).\<close>

record batch =
  calls :: "(string \<times> call) list"
  announced :: bool

fun rejected :: "call \<Rightarrow> bool" where
  "rejected (Rejected e) = True"
| "rejected t = False"

text \<open>\<^verbatim>\<open>Promise.all\<close> rejects as soon as one promise has rejected and resolves once all have
  resolved; the callback sends its message once.\<close>

definition settle_all :: "msg \<Rightarrow> batch \<times> 'r world \<Rightarrow> batch \<times> 'r world" where
  "settle_all m bw =
     (let (b, w) = bw in
      if announced b then (b, w)
      else if list_ex (\<lambda>(k, t). rejected t) (calls b) then
        (b\<lparr>announced := True\<rparr>, sendMessage (chat_id m) ''Some mints failed, check logs'' w)
      else if list_all (\<lambda>(k, t). settled t) (calls b) then
        (b\<lparr>announced := True\<rparr>, sendMessage (chat_id m) ''Batch mint complete!'' w)
      else (b, w))"

text \<open>The handler of lines 249--257; \<open>None\<close> is the \<^verbatim>\<open>return\<close> for a sender who is not the
  administrator.\<close>

definition mint_command :: "'r web3 \<Rightarrow> config \<Rightarrow> msg \<Rightarrow> 'r world \<Rightarrow> (batch \<times> 'r world) option" where
  "mint_command W cfg m w =
     (if from_id m \<noteq> ADMIN_ID cfg then None
      else let (ts, w1) = start_all W cfg m (WALLETS cfg) w
           in Some (settle_all m (\<lparr>calls = ts, announced = False\<rparr>, w1)))"

text \<open>One turn of the event loop: the promise that call number \<open>i\<close> awaits settles, the
  call is resumed, and the callbacks of \<^verbatim>\<open>Promise.all\<close> run if it has settled by then.\<close>

definition deliver :: "'r web3 \<Rightarrow> config \<Rightarrow> msg \<Rightarrow> nat \<Rightarrow> batch \<times> 'r world \<Rightarrow> batch \<times> 'r world" where
  "deliver W cfg m i bw =
     (let (b, w) = bw in
      if i < length (calls b) then
        (let (k, t) = calls b ! i;
             (t1, w1) = resume W cfg k m t w
         in settle_all m (b\<lparr>calls := (calls b)[i := (k, t1)]\<rparr>, w1))
      else (b, w))"

text \<open>A schedule names, turn by turn, the call whose awaited promise settles next.\<close>

definition run_events :: "'r web3 \<Rightarrow> config \<Rightarrow> msg \<Rightarrow> nat list \<Rightarrow> batch \<times> 'r world \<Rightarrow> batch \<times> 'r world" where
  "run_events W cfg m schedule bw = fold (deliver W cfg m) schedule bw"

text \<open>The nonces of the transactions sent for an address, in the order the endpoint
  received them.\<close>

fun sent_nonces :: "string \<Rightarrow> rpc list \<Rightarrow> nat list" where
  "sent_nonces a [] = []"
| "sent_nonces a (SendSignedTransaction t raw # rest) =
     (if from_addr t = a
      then (case nonce t of None \<Rightarrow> sent_nonces a rest | Some n \<Rightarrow> n # sent_nonces a rest)
      else sent_nonces a rest)"
| "sent_nonces a (x # rest) = sent_nonces a rest"

text \<open>The error the \<^verbatim>\<open>catch\<close> block sees for a reply of the endpoint, if any.\<close>

fun reply_error :: "send_reply \<Rightarrow> js_error option" where
  "reply_error (Receipt h) = None"
| "reply_error (Refused e) = Some e"
| "reply_error NoReply = Some (Error ''Transaction timed out'')"

text \<open>Submissions made one after the other, each awaited before the next begins.\<close>

fun submit_in_turn :: "'r web3 \<Rightarrow> config \<Rightarrow> msg \<Rightarrow> string list \<Rightarrow> 'r world \<Rightarrow> 'r world" where
  "submit_in_turn W cfg m [] w = w"
| "submit_in_turn W cfg m (k # ks) w =
     submit_in_turn W cfg m ks (snd (sendMonadMintTx W cfg k m w))"

text \<open>A key that \<^verbatim>\<open>privateKeyToAccount\<close> accepts.\<close>

definition accepts :: "'r web3 \<Rightarrow> string \<Rightarrow> bool" where
  "accepts W k = (case privateKeyToAccount W k of Inl e \<Rightarrow> False | Inr a \<Rightarrow> True)"

text \<open>The invariant of a batch whose keys are all accepted: no call has rejected, and
  once all have settled the callback of \<^verbatim>\<open>Promise.all\<close> has run.\<close>

definition batch_ok :: "'r web3 \<Rightarrow> batch \<Rightarrow> bool" where
  "batch_ok W b =
     (list_all (\<lambda>(k, t). accepts W k \<and> \<not> rejected t) (calls b)
      \<and> (list_all (\<lambda>(k, t). settled t) (calls b) \<longrightarrow> announced b))"

section \<open>The second variant: \<^verbatim>\<open>mintNFT\<close> with its balance check\<close>

text \<open>
  The helper \<^verbatim>\<open>sendMessage(chatId, message)\<close> of the second variant: the chat, then the
  channel when \<^verbatim>\<open>CONFIG.CHANNEL_ID\<close> starts with \<^verbatim>\<open>@\<close> or \<^verbatim>\<open>-\<close> and is not the chat itself.
  Sending is taken to succeed.
\<close>

definition show_int :: "int \<Rightarrow> string" where
  "show_int i = (if i < 0 then ''-'' @ digits (nat (- i)) else digits (nat i))"

definition notify :: "config \<Rightarrow> int \<Rightarrow> string \<Rightarrow> 'r world \<Rightarrow> 'r world" where
  "notify cfg chatId text w =
     (let w1 = w\<lparr>chat := chat w @ [(Chat chatId, text)]\<rparr>
      in if CHANNEL_ID cfg \<noteq> [] \<and> (take 1 (CHANNEL_ID cfg) = ''@'' \<or> take 1 (CHANNEL_ID cfg) = ''-'')
            \<and> CHANNEL_ID cfg \<noteq> show_int chatId
         then w1\<lparr>chat := chat w1 @ [(Channel (CHANNEL_ID cfg), text)]\<rparr>
         else w1)"

text \<open>The \<^verbatim>\<open>catch\<close> block of \<^verbatim>\<open>mintNFT\<close> (lines 290--300).\<close>

definition mint_failed :: "config \<Rightarrow> int \<Rightarrow> js_error \<Rightarrow> 'r world \<Rightarrow> 'r world" where
  "mint_failed cfg chatId e w =
     (let errorMsg = (if length (message e) > 100 then take 100 (message e) @ ''...''
                      else message e)
      in notify cfg chatId (''Mint failed: '' @ errorMsg) w)"

text \<open>
  Lines 272--289 of \<^verbatim>\<open>mintNFT\<close>: build, sign and send. The transaction object has no
  nonce; the account object of \<^verbatim>\<open>web3\<close> fills it in from the endpoint when it signs.
  There is no timer here: when the endpoint never answers the submission, the call
  never returns, which is \<open>None\<close>.
\<close>

definition mint_submit ::
  "'r web3 \<Rightarrow> config \<Rightarrow> string \<Rightarrow> string \<Rightarrow> int \<Rightarrow> 'r world \<Rightarrow> 'r world option" where
  "mint_submit W cfg walletKey a chatId w1 =
     (let w2 = notify cfg chatId (''Minting from '' @ a @ ''...'') w1;
          (nreply, r2) = getTransactionCount W (remote w2) a;
          w3 = w2\<lparr>remote := r2, rpc_log := rpc_log w2 @ [GetTransactionCount a]\<rparr>
      in case nreply of
           Inl e \<Rightarrow> Some (mint_failed cfg chatId e w3)
         | Inr n \<Rightarrow>
             (case signTransaction W walletKey (mint_tx W cfg a (Some n)) of
                Inl e \<Rightarrow> Some (mint_failed cfg chatId e w3)
              | Inr raw \<Rightarrow>
                  (let (sreply, r3) =
                         sendSignedTransaction W (remote w3) (mint_tx W cfg a (Some n)) raw;
                       w4 = w3\<lparr>remote := r3,
                              rpc_log := rpc_log w3
                                @ [SendSignedTransaction (mint_tx W cfg a (Some n)) raw]\<rparr>
                   in case sreply of
                        Receipt h \<Rightarrow>
                          Some (notify cfg chatId
                                 (''Mint successful from '' @ a @ [CHR 0x0A]
                                  @ ''[View Transaction]('' @ EXPLORER_URL cfg @ h @ '')'') w4)
                      | Refused e \<Rightarrow> Some (mint_failed cfg chatId e w4)
                      | NoReply \<Rightarrow> None)))"

text \<open>\<^verbatim>\<open>mintNFT(walletKey, chatId)\<close>, awaited. \<open>fromWei\<close> is the library's formatting of an
  amount.\<close>

definition mintNFT ::
  "'r web3 \<Rightarrow> (nat \<Rightarrow> string) \<Rightarrow> config \<Rightarrow> string \<Rightarrow> int \<Rightarrow> 'r world \<Rightarrow> 'r world option" where
  "mintNFT W fromWei cfg walletKey0 chatId w =
     (case contract w of
        None \<Rightarrow> Some (notify cfg chatId ''Contract not properly initialized'' w)
      | Some c \<Rightarrow>
          (let walletKey =
                 (if take 2 walletKey0 = ''0x'' then walletKey0 else ''0x'' @ walletKey0)
           in case privateKeyToAccount W walletKey of
                Inl e \<Rightarrow> Some (mint_failed cfg chatId e w)
              | Inr a \<Rightarrow>
                  (let (breply, r1) = getBalance W (remote w) a;
                       w1 = w\<lparr>remote := r1, rpc_log := rpc_log w @ [GetBalance a]\<rparr>
                   in case breply of
                        Inl e \<Rightarrow> Some (mint_failed cfg chatId e w1)
                      | Inr balance \<Rightarrow>
                          if balance < GAS_LIMIT cfg * GAS_PRICE cfg then
                            Some (notify cfg chatId
                                   (''Insufficient balance in '' @ a @ [CHR 0x0A] @ ''Has: ''
                                    @ fromWei balance @ '' ETH'' @ [CHR 0x0A] @ ''Needs: ~''
                                    @ fromWei (GAS_LIMIT cfg * GAS_PRICE cfg) @ '' ETH'') w1)
                          else mint_submit W cfg walletKey a chatId w1)))"

section \<open>Concrete instances for evaluation\<close>

definition tx0 :: tx_record where
  "tx0 = \<lparr>address = ''0xA'', txHash = Some ''0xH'', error = None, status = success\<rparr>"

definition world0 :: "unit world" where
  "world0 = \<lparr>remote = (), rpc_log = [], chat = [], logger = [], txfile = NoFile, clock = 0,
     walletsfile = NoWallets, wallets = [], contract = None\<rparr>"

subsection \<open>A small instance of the library parameters\<close>

text \<open>
  Stand-ins for the library functions, for evaluating the model on concrete inputs. They
  are not the real primitives: the key derivation repeats password and salt, the block
  cipher adds a key byte to every byte, the MAC is a two-byte checksum. The JSON codec
  is the real one restricted to arrays of strings without escapes, without white space.
\<close>

definition toy_scrypt :: "string \<Rightarrow> bytes \<Rightarrow> bytes" where
  "toy_scrypt password salt_bytes =
     (let m = utf8_encode password @ salt_bytes @ [1]
      in map (\<lambda>i. m ! (i mod length m)) [0..<32])"

definition key_byte :: "bytes \<Rightarrow> 8 word" where
  "key_byte k = fold (+) k 7"

definition toy_encrypt_block :: "bytes \<Rightarrow> bytes \<Rightarrow> bytes" where
  "toy_encrypt_block k b = map (\<lambda>x. x + key_byte k) b"

definition toy_decrypt_block :: "bytes \<Rightarrow> bytes \<Rightarrow> bytes" where
  "toy_decrypt_block k b = map (\<lambda>x. x - key_byte k) b"

definition toy_hmac :: "bytes \<Rightarrow> string \<Rightarrow> bytes" where
  "toy_hmac k s = [fold (+) (utf8_encode s) (key_byte k), of_nat (length s)]"

definition json_quote :: "string \<Rightarrow> string" where
  "json_quote s = [CHR 0x22] @ s @ [CHR 0x22]"

fun json_items :: "string list \<Rightarrow> string" where
  "json_items [] = []"
| "json_items [s] = json_quote s"
| "json_items (s # rest) = json_quote s @ '','' @ json_items rest"

definition mini_stringify :: "string list \<Rightarrow> string" where
  "mini_stringify xs = ''['' @ json_items xs @ '']''"

datatype scan_mode = AtStart | AtFirst | InString | AfterString | AtNext | AtEnd

fun scan :: "scan_mode \<Rightarrow> string \<Rightarrow> string list \<Rightarrow> string \<Rightarrow> string list option" where
  "scan AtEnd cur items [] = Some items"
| "scan m cur items [] = None"
| "scan AtStart cur items (c # cs) = (if c = CHR ''['' then scan AtFirst cur items cs else None)"
| "scan AtFirst cur items (c # cs) =
     (if c = CHR '']'' then scan AtEnd cur items cs
      else if c = CHR 0x22 then scan InString [] items cs else None)"
| "scan AtNext cur items (c # cs) = (if c = CHR 0x22 then scan InString [] items cs else None)"
| "scan InString cur items (c # cs) =
     (if c = CHR 0x22 then scan AfterString [] (items @ [cur]) cs
      else if c = CHR 0x5C \<or> (of_char c :: nat) < 32 then None
      else scan InString (cur @ [c]) items cs)"
| "scan AfterString cur items (c # cs) =
     (if c = CHR '','' then scan AtNext cur items cs
      else if c = CHR '']'' then scan AtEnd cur items cs else None)"
| "scan AtEnd cur items (c # cs) = None"

definition mini_parse :: "string \<Rightarrow> js_error + string list" where
  "mini_parse s =
     (case scan AtStart [] [] s of
        None \<Rightarrow> Inl (SyntaxError ''Unexpected token in JSON'')
      | Some xs \<Rightarrow> Inr xs)"

definition toy_lib :: node_lib where
  "toy_lib =
     \<lparr>scryptSync = toy_scrypt, hmac_sha256 = toy_hmac,
      aes_encrypt_block = toy_encrypt_block, aes_decrypt_block = toy_decrypt_block,
      JSON_stringify = mini_stringify, JSON_parse = mini_parse\<rparr>"

text \<open>An entropy source for the examples.\<close>

definition count_up :: "nat \<Rightarrow> 8 word" where
  "count_up i = of_nat (3 * i + 1)"

text \<open>The vault that \<open>encryptWallets toy_lib count_up [''ab''] ''pw''\<close> evaluates to.\<close>

definition vault0 :: vault where
  "vault0 =
     \<lparr>iv = Some ''0104070a0d101316191c1f2225282b2e'',
      salt = Some ''3134373a3d404346494c4f5255585b5e'',
      encryptedData = Some ''683474763d5b272a212423363d302f32'',
      hmac = Some ''7320''\<rparr>"

text \<open>The same vault with one bit of the third IV byte changed (\<open>07\<close> to \<open>05\<close>).\<close>

definition vault0_iv_flipped :: vault where
  "vault0_iv_flipped = vault0\<lparr>iv := Some ''0104050a0d101316191c1f2225282b2e''\<rparr>"

subsection \<open>A small remote ledger\<close>

text \<open>
  A stand-in for the RPC endpoint, for evaluating the model on concrete inputs: the
  ledger keeps a pending transaction count and a balance for each address, reports
  them, accepts a transaction whose nonce is the pending count of its sender and whose
  sender can pay \<open>gas * gasPrice\<close>, refuses a lower nonce, and leaves a higher one
  queued without reply.
\<close>

record ledger =
  pending :: "string \<Rightarrow> nat"
  balances :: "string \<Rightarrow> nat"

definition ledger_send :: "ledger \<Rightarrow> tx \<Rightarrow> string \<Rightarrow> send_reply \<times> ledger" where
  "ledger_send r t raw =
     (case nonce t of
        None \<Rightarrow> (Refused (Error ''invalid transaction''), r)
      | Some n \<Rightarrow>
          if n < pending r (from_addr t) then (Refused (Error ''nonce too low''), r)
          else if pending r (from_addr t) < n then (NoReply, r)
          else if balances r (from_addr t) < gas t * gasPrice t
          then (Refused (Error ''insufficient funds for gas * price + value''), r)
          else (Receipt (''0xhash'' @ digits n),
                r\<lparr>pending := (pending r)(from_addr t := Suc n)\<rparr>))"

text \<open>Stand-ins for the account functions: a key is \<open>0x\<close> and 64 more characters, its
  address the first 40 of them.\<close>

definition toy_account :: "string \<Rightarrow> js_error + string" where
  "toy_account k =
     (if length k = 66 \<and> take 2 k = ''0x'' then Inr (''0x'' @ take 40 (drop 2 k))
      else Inl (Error ''Private key must be 32 bytes long''))"

definition toy_sign :: "string \<Rightarrow> tx \<Rightarrow> js_error + string" where
  "toy_sign k t = Inr (''0xraw'' @ (case nonce t of None \<Rightarrow> [] | Some n \<Rightarrow> digits n))"

definition ledger_web3 :: "ledger web3" where
  "ledger_web3 =
     \<lparr>privateKeyToAccount = toy_account, signTransaction = toy_sign,
      encodeABI_mint = ''0x1249c58b'',
      getTransactionCount = (\<lambda>r a. (Inr (pending r a), r)),
      getBalance = (\<lambda>r a. (Inr (balances r a), r)),
      sendSignedTransaction = ledger_send\<rparr>"

definition config0 :: config where
  "config0 =
     \<lparr>EXPLORER_URL = ''https://testnet.monadexplorer.com/tx/'', CHAIN_ID = 10143,
      GAS_PRICE = 1000000000, GAS_LIMIT = 500000,
      CONTRACT_ADDRESS = ''0x1aa689f843077dca043df7d0dc0b3f62dbc6180d'',
      ADMIN_ID = 6668515216, WALLETS = [], CHANNEL_ID = ''@your_channel''\<rparr>"

definition admin_msg :: msg where
  "admin_msg = \<lparr>chat_id = 42, from_id = 6668515216\<rparr>"

definition key1 :: string where
  "key1 = ''0x1111111111111111111111111111111111111111111111111111111111111111''"

definition addr1 :: string where
  "addr1 = ''0x1111111111111111111111111111111111111111''"

text \<open>A world whose ledger has five pending transactions for every address and gives
  every address the balance \<open>b\<close>; the contract object exists.\<close>

definition ledger_world :: "nat \<Rightarrow> ledger world" where
  "ledger_world b =
     \<lparr>remote = \<lparr>pending = (\<lambda>a. 5), balances = (\<lambda>a. b)\<rparr>, rpc_log = [], chat = [],
      logger = [], txfile = NoFile, clock = 1700000000000,
      walletsfile = NoWallets, wallets = [],
      contract = Some ''0x1aa689f843077dca043df7d0dc0b3f62dbc6180d''\<rparr>"

text \<open>An endpoint that lets the first two submissions time out and accepts every later
  one; its state counts the submissions it has seen. The nonce it reports is 7 plus
  that count.\<close>

definition flaky_web3 :: "nat web3" where
  "flaky_web3 =
     \<lparr>privateKeyToAccount = toy_account, signTransaction = toy_sign,
      encodeABI_mint = ''0x1249c58b'',
      getTransactionCount = (\<lambda>r a. (Inr (7 + r), r)),
      getBalance = (\<lambda>r a. (Inr 0, r)),
      sendSignedTransaction =
        (\<lambda>r t raw. if r < 2 then (NoReply, Suc r) else (Receipt ''0xfeed'', Suc r))\<rparr>"

definition flaky_world :: "nat world" where
  "flaky_world =
     \<lparr>remote = 0, rpc_log = [], chat = [], logger = [], txfile = NoFile, clock = 1700000000000,
      walletsfile = NoWallets, wallets = [],
      contract = Some ''0x1aa689f843077dca043df7d0dc0b3f62dbc6180d''\<rparr>"

text \<open>The configuration with the same wallet listed twice.\<close>

definition config2 :: config where
  "config2 = config0\<lparr>WALLETS := [key1, key1]\<rparr>"

section \<open>Properties of the transaction history\<close>

lemma js_slice_neg: "0 < n \<Longrightarrow> js_slice xs (- int n) = last_n n xs"
  by (auto simp: js_slice_def last_n_def Let_def max_def nat_diff_distrib' intro: arg_cong [where f = "\<lambda>k. drop k xs"])

lemma js_slice_zero: "js_slice xs 0 = xs"
  by (simp add: js_slice_def)

lemma push_capped_last_n: "push_capped h e = last_n 100 (h @ [e])"
proof -
  have "js_slice (h @ [e]) (- 100) = last_n 100 (h @ [e])"
    using js_slice_neg [of 100 "h @ [e]"] by simp
  then show ?thesis
    by (simp add: push_capped_def Let_def last_n_def)
qed

lemma last_n_append: "last_n n (last_n n xs @ ys) = last_n n (xs @ ys)"
proof (cases "length xs \<le> n")
  case True
  then show ?thesis by (simp add: last_n_def)
next
  case False
  then have b: "length xs + length ys - n = (length xs - n) + length ys"
    by simp
  have "last_n n (last_n n xs @ ys) = drop (length ys) (drop (length xs - n) xs @ ys)"
    using False by (simp add: last_n_def)
  also have "\<dots> = drop (length xs - n + length ys) (xs @ ys)"
    using False by (simp add: add.commute) 
  also have "\<dots> = last_n n (xs @ ys)"
    unfolding last_n_def using b by simp
  finally show ?thesis .
qed

lemma length_last_n: "length (last_n n xs) = min n (length xs)"
  by (auto simp: last_n_def)

lemma saveTxHistory_entries:
  "readable w \<Longrightarrow>
     txfile (saveTxHistory tx w) = History (last_n 100 (entries w @ [stamp tx (clock w)]))"
  by (cases "txfile w") (simp_all add: saveTxHistory_def readable_def entries_def push_capped_last_n)

lemma saveTxHistory_readable: "readable w \<Longrightarrow> readable (saveTxHistory tx w)"
  by (simp add: saveTxHistory_entries readable_def)

lemma append_all_entries:
  "readable w \<Longrightarrow> xs \<noteq> [] \<Longrightarrow>
     txfile (append_all xs w) = History (last_n 100 (entries w @ stamps xs))"
proof (induction xs arbitrary: w)
  case Nil
  then show ?case by simp
next
  case (Cons x xs)
  obtain tx t where x: "x = (tx, t)" by (cases x)
  let ?w1 = "saveTxHistory tx (w\<lparr>clock := t\<rparr>)"
  have r0: "readable (w\<lparr>clock := t\<rparr>)"
    using Cons.prems(1) by (simp add: readable_def)
  have f1: "txfile ?w1 = History (last_n 100 (entries w @ [stamp tx t]))"
    using saveTxHistory_entries [OF r0, of tx] by (simp add: entries_def)
  have r1: "readable ?w1"
    using r0 by (rule saveTxHistory_readable)
  show ?case
  proof (cases "xs = []")
    case True
    then show ?thesis using f1 by (simp add: x stamps_def)
  next
    case False
    have "txfile (append_all xs ?w1) = History (last_n 100 (entries ?w1 @ stamps xs))"
      using Cons.IH [OF r1 False] .
    moreover have "last_n 100 (last_n 100 (entries w @ [stamp tx t]) @ stamps xs)
        = last_n 100 ((entries w @ [stamp tx t]) @ stamps xs)"
      by (rule last_n_append)
    ultimately show ?thesis
      using f1 by (simp add: x entries_def stamps_def)
  qed
qed

text \<open>
  Claim C6. Appending 150 results in sequence to a readable history leaves exactly the
  last 100 of them, the oldest 50 gone from the front; after each of the appends the
  history holds at most 100 entries; and \<^verbatim>\<open>getTxHistory(10)\<close> returns the last 10, most
  recent first, leaving the world (and so the history file) as it was.
\<close>

theorem ledger_bound_and_eviction:
  assumes len: "length xs = 150" and rd: "readable w"
  shows "txfile (append_all xs w) = History (drop 50 (stamps xs))
       \<and> length (entries (append_all xs w)) = 100
       \<and> (\<forall>n. 0 < n \<and> n \<le> 150 \<longrightarrow> length (entries (append_all (take n xs) w)) \<le> 100)
       \<and> getTxHistory (Some 10) (append_all xs w)
           = (rev (drop 140 (stamps xs)), append_all xs w)"
proof -
  from len have ne: "xs \<noteq> []" by auto
  have ls: "length (stamps xs) = 150" using len by (simp add: stamps_def)
  have "last_n 100 (entries w @ stamps xs) = drop 50 (stamps xs)"
    using ls by (simp add: last_n_def)
  then have f: "txfile (append_all xs w) = History (drop 50 (stamps xs))"
    using append_all_entries [OF rd ne] by simp
  have e: "entries (append_all xs w) = drop 50 (stamps xs)"
    using f by (simp add: entries_def)
  have sz: "length (entries (append_all xs w)) = 100"
    using e ls by simp
  have every: "length (entries (append_all (take n xs) w)) \<le> 100" if n: "0 < n" "n \<le> 150" for n
  proof -
    have "take n xs \<noteq> []" using n len by auto
    from append_all_entries [OF rd this]
    show ?thesis by (simp add: entries_def length_last_n)
  qed
  have "js_slice (drop 50 (stamps xs)) (- 10) = drop 140 (stamps xs)"
    using js_slice_neg [of 10 "drop 50 (stamps xs)"] ls by (simp add: last_n_def)
  then have g: "getTxHistory (Some 10) (append_all xs w)
           = (rev (drop 140 (stamps xs)), append_all xs w)"
    using f by (simp add: getTxHistory_def)
  from f sz every g show ?thesis by blast
qed

theorem ledger_bound_and_eviction_witness:
  "length (entries (append_all (map (\<lambda>i. (tx0, i)) [0..<150]) world0)) = 100
   \<and> map timestamp (entries (append_all (map (\<lambda>i. (tx0, i)) [0..<150]) world0)) = [50..<150]
   \<and> map timestamp (fst (getTxHistory (Some 10) (append_all (map (\<lambda>i. (tx0, i)) [0..<150]) world0)))
       = [149, 148, 147, 146, 145, 144, 143, 142, 141, 140]"
proof -
  let ?xs = "map (\<lambda>i. (tx0, i)) [0..<150]"
  have len: "length ?xs = 150" by simp
  have rd: "readable world0" by (simp add: readable_def world0_def)
  have st: "map timestamp (stamps ?xs) = [0..<150]"
    by (simp add: stamps_def stamp_def comp_def map_idI)
  have d: "drop 140 [0..<150] = [140, 141, 142, 143, 144, 145, 146, 147, 148, 149::nat]"
    by code_simp
  have "map timestamp (drop 50 (stamps ?xs)) = [50..<150]"
       "map timestamp (rev (drop 140 (stamps ?xs))) = [149, 148, 147, 146, 145, 144, 143, 142, 141, 140]"
    using st d by (simp_all add: drop_map [symmetric] rev_map [symmetric])
  note m = this
  note t = ledger_bound_and_eviction [OF len rd]
  have f: "txfile (append_all ?xs world0) = History (drop 50 (stamps ?xs))"
    using t by (rule conjunct1)
  have e: "entries (append_all ?xs world0) = drop 50 (stamps ?xs)"
    by (simp only: entries_def f txfile.case)
  have g: "fst (getTxHistory (Some 10) (append_all ?xs world0)) = rev (drop 140 (stamps ?xs))"
    using t by simp
  have "length (entries (append_all ?xs world0)) = 100"
    using t by blast
  then show ?thesis
    by (simp only: e g m)
qed

text \<open>
  Claim C10. \<^verbatim>\<open>getTxHistory(0)\<close> on a stored history returns the whole history in reverse
  insertion order (\<^verbatim>\<open>slice(-0)\<close> is \<^verbatim>\<open>slice(0)\<close>), so it is not empty when the history is
  not; with no history file the result is the empty sequence, whatever the limit.
\<close>

theorem getTxHistory_zero_limit:
  "(txfile w = History h \<longrightarrow>
      getTxHistory (Some 0) w = (rev h, w) \<and> (h \<noteq> [] \<longrightarrow> fst (getTxHistory (Some 0) w) \<noteq> []))
   \<and> (txfile w = NoFile \<longrightarrow> getTxHistory lim w = ([], w))"
  by (simp add: getTxHistory_def js_slice_zero)

theorem getTxHistory_zero_limit_witness:
  "getTxHistory (Some 0) (world0\<lparr>txfile := History [stamp tx0 1, stamp tx0 2]\<rparr>)
     = ([stamp tx0 2, stamp tx0 1], world0\<lparr>txfile := History [stamp tx0 1, stamp tx0 2]\<rparr>)
   \<and> getTxHistory (Some 0) world0 = ([], world0)"
  using getTxHistory_zero_limit [of "world0\<lparr>txfile := History [stamp tx0 1, stamp tx0 2]\<rparr>" "[stamp tx0 1, stamp tx0 2]" "Some 0"]
    getTxHistory_zero_limit [of world0 "[]" "Some 0"]
  by (simp add: world0_def)

section \<open>Properties of the vault codec\<close>

lemma hex_value_digit: "n < 16 \<Longrightarrow> hex_value (hex_digit n) = Some n"
proof -
  have "\<forall>n \<in> set [0..<16]. hex_value (hex_digit n) = Some n"
    by code_simp
  then show "n < 16 \<Longrightarrow> hex_value (hex_digit n) = Some n"
    by simp
qed

lemma unat_byte_lt: "unat (b :: 8 word) < 256"
  using unsigned_less [of b, where 'a = nat] by simp

lemma byte_split: "(of_nat (16 * (unat b div 16) + unat b mod 16) :: 8 word) = b"
  by simp

lemma hex_decode_byte: "hex_decode (hex_of_byte b @ rest) = b # hex_decode rest"
proof -
  have "unat b div 16 < 16" using unat_byte_lt [of b] by simp
  moreover have "unat b mod 16 < 16" by simp
  ultimately show ?thesis
    using byte_split [of b] by (simp add: hex_of_byte_def hex_value_digit del: of_nat_add of_nat_mult)
qed

lemma hex_decode_toString_hex: "hex_decode (toString_hex bs) = bs"
  by (induction bs) (simp_all add: toString_hex_def hex_decode_byte)

lemma char_of_byte_of_char: "char_of_byte (byte_of_char c) = c"
  by (simp add: byte_of_char_def char_of_byte_def unat_of_nat)

lemma utf8_decode_encode: "utf8_decode (utf8_encode s) = s"
  by (simp add: utf8_decode_def utf8_encode_def comp_def char_of_byte_of_char)

lemma length_pkcs7_pad: "length (pkcs7_pad m) mod 16 = 0"
proof -
  have "(length m + (16 - length m mod 16)) mod 16 = 0"
    by presburger
  then show ?thesis by (simp add: pkcs7_pad_def Let_def)
qed

lemma pkcs7_pad_nonempty: "pkcs7_pad m \<noteq> []"
  by (simp add: pkcs7_pad_def Let_def)

lemma pkcs7_unpad_pad: "pkcs7_unpad (pkcs7_pad m) = Inr m"
proof -
  define n where "n = 16 - length m mod 16"
  have n: "0 < n" "n \<le> 16" by (simp_all add: n_def)
  have u: "unat (of_nat n :: 8 word) = n"
    using n by (simp add: unat_of_nat)
  have p: "pkcs7_pad m = m @ replicate n (of_nat n)"
    by (simp add: pkcs7_pad_def n_def)
  have l: "last (m @ replicate n (of_nat n :: 8 word)) = of_nat n"
    using n by simp
  show ?thesis
    unfolding p pkcs7_unpad_def l u Let_def using n by simp
qed

lemma length_xor_bytes: "length (xor_bytes a b) = min (length a) (length b)"
  by (simp add: xor_bytes_def)

lemma xor_bytes_cancel: "length a = length b \<Longrightarrow> xor_bytes (xor_bytes a b) b = a"
  unfolding xor_bytes_def
  by (induction a b rule: list_induct2) (simp_all add: xor.assoc)

lemma whole_blocks: "length m mod 16 = 0 \<Longrightarrow> m \<noteq> [] \<Longrightarrow> length (take 16 m) = 16 \<and> length (drop 16 m) mod 16 = 0"
proof -
  assume a: "length m mod 16 = 0" "m \<noteq> []"
  then have "length m \<noteq> 0" by simp
  with a(1) have g: "16 \<le> length m" by presburger
  then have "(length m - 16) mod 16 = 0" using a(1) by presburger
  with g show ?thesis by simp
qed

lemma cbc_decrypt_encrypt:
  "(\<forall>b. length b = 16 \<longrightarrow> length (E b) = 16 \<and> D (E b) = b) \<Longrightarrow>
     length m mod 16 = 0 \<Longrightarrow> length prev = 16 \<Longrightarrow>
     cbc_decrypt D prev (cbc_encrypt E prev m) = m
     \<and> length (cbc_encrypt E prev m) = length m"
proof (induction E prev m rule: cbc_encrypt.induct)
  case (1 E prev m)
  show ?case
  proof (cases "m = []")
    case True
    then show ?thesis by (simp add: cbc_encrypt.simps cbc_decrypt.simps)
  next
    case False
    let ?x = "xor_bytes (take 16 m) prev"
    let ?c = "E ?x"
    have w: "length (take 16 m) = 16" "length (drop 16 m) mod 16 = 0"
      using whole_blocks [OF "1.prems"(2) False] by simp_all
    have lx: "length ?x = 16" using w(1) "1.prems"(3) by (simp add: length_xor_bytes)
    have c: "length ?c = 16" "D ?c = ?x" using "1.prems"(1) lx by auto
    have ih: "cbc_decrypt D ?c (cbc_encrypt E ?c (drop 16 m)) = drop 16 m
         \<and> length (cbc_encrypt E ?c (drop 16 m)) = length (drop 16 m)"
      using "1.IH" [OF False refl "1.prems"(1) w(2) c(1)] .
    have e: "cbc_encrypt E prev m = ?c @ cbc_encrypt E ?c (drop 16 m)"
      using False by (subst cbc_encrypt.simps) (simp add: Let_def)
    have x: "xor_bytes ?x prev = take 16 m"
      using w(1) "1.prems"(3) by (simp add: xor_bytes_cancel)
    have "cbc_decrypt D prev (?c @ cbc_encrypt E ?c (drop 16 m))
        = xor_bytes (D ?c) prev @ cbc_decrypt D ?c (cbc_encrypt E ?c (drop 16 m))"
      using c(1) by (subst cbc_decrypt.simps) auto
    then have "cbc_decrypt D prev (cbc_encrypt E prev m) = take 16 m @ drop 16 m"
      using e c(2) x ih by simp
    moreover have "length (cbc_encrypt E prev m) = 16 + length (drop 16 m)"
      using e c(1) ih by simp
    moreover have "16 + length (drop 16 m) = length m"
      using w(1) by simp
    ultimately show ?thesis by simp
  qed
qed

lemma length_randomBytes: "length (fst (randomBytes n rng)) = n"
  by (simp add: randomBytes_def)

lemma aes_256_cbc_round_trip:
  assumes blk: "\<forall>b. length b = 16 \<longrightarrow>
            length (aes_encrypt_block L k b) = 16
            \<and> aes_decrypt_block L k (aes_encrypt_block L k b) = b"
    and iv16: "length i = 16"
  shows "aes_256_cbc_decrypt L k i (aes_256_cbc_encrypt L k i m) = Inr m"
proof -
  let ?c = "cbc_encrypt (aes_encrypt_block L k) i (pkcs7_pad m)"
  have r: "cbc_decrypt (aes_decrypt_block L k) i ?c = pkcs7_pad m
          \<and> length ?c = length (pkcs7_pad m)"
    using cbc_decrypt_encrypt [OF blk length_pkcs7_pad iv16] .
  then have "length ?c mod 16 = 0" "?c \<noteq> []"
    using length_pkcs7_pad [of m] pkcs7_pad_nonempty [of m] by auto
  then show ?thesis
    using r iv16 by (simp add: aes_256_cbc_decrypt_def aes_256_cbc_encrypt_def pkcs7_unpad_pad)
qed

text \<open>
  Claim C1. For every credential collection \<open>C\<close>, password \<open>P\<close> and entropy source,
  decrypting the vault that \<^verbatim>\<open>encryptWallets\<close> produced with the same password returns
  exactly \<open>C\<close>. The library functions are assumed to keep their contracts: AES block
  decryption inverts block encryption on 16-byte blocks, and \<^verbatim>\<open>JSON.parse\<close> reads back
  what \<^verbatim>\<open>JSON.stringify\<close> wrote for \<open>C\<close>.
\<close>

theorem vault_round_trip:
  assumes blk: "\<forall>k b. length b = 16 \<longrightarrow>
            length (aes_encrypt_block L k b) = 16
            \<and> aes_decrypt_block L k (aes_encrypt_block L k b) = b"
    and json: "JSON_parse L (JSON_stringify L C) = Inr C"
  shows "decryptWallets L (encryptWallets L rng C P) P = Inr C"
proof -
  obtain i rng1 where i: "randomBytes 16 rng = (i, rng1)" by (cases "randomBytes 16 rng")
  obtain s rng2 where s: "randomBytes 16 rng1 = (s, rng2)" by (cases "randomBytes 16 rng1")
  have iv16: "length i = 16" using length_randomBytes [of 16 rng] i by simp
  define k where "k = scryptSync L P s"
  define ct where "ct = aes_256_cbc_encrypt L k i (utf8_encode (JSON_stringify L C))"
  have v: "encryptWallets L rng C P =
      \<lparr>iv = Some (toString_hex i), salt = Some (toString_hex s),
       encryptedData = Some (toString_hex ct),
       hmac = Some (toString_hex (hmac_sha256 L k (toString_hex ct)))\<rparr>"
    by (simp add: encryptWallets_def i s k_def ct_def Let_def)
  have b: "\<forall>b. length b = 16 \<longrightarrow>
            length (aes_encrypt_block L k b) = 16
            \<and> aes_decrypt_block L k (aes_encrypt_block L k b) = b"
    using blk by blast
  have d: "aes_256_cbc_decrypt L k i ct = Inr (utf8_encode (JSON_stringify L C))"
    unfolding ct_def by (rule aes_256_cbc_round_trip [OF b iv16])
  show ?thesis
    unfolding v decryptWallets_def
    by (simp add: Buffer_from_hex_def hex_decode_toString_hex k_def [symmetric] d
        utf8_decode_encode json)
qed

lemma toy_block: "length b = 16 \<longrightarrow>
            length (aes_encrypt_block toy_lib k b) = 16
            \<and> aes_decrypt_block toy_lib k (aes_encrypt_block toy_lib k b) = b"
  by (simp add: toy_lib_def toy_encrypt_block_def toy_decrypt_block_def comp_def)

lemma mini_json_ab: "JSON_parse toy_lib (JSON_stringify toy_lib [''ab'']) = Inr [''ab'']"
  by (simp add: toy_lib_def mini_parse_def mini_stringify_def json_quote_def)

theorem vault_round_trip_witness:
  "decryptWallets toy_lib (encryptWallets toy_lib count_up [''ab''] ''pw'') ''pw'' = Inr [''ab'']"
  using vault_round_trip [of toy_lib "[''ab'']" count_up "''pw''"] toy_block mini_json_ab
  by blast

lemma encryptWallets_fields:
  "encryptWallets L rng C P =
      \<lparr>iv = Some (toString_hex (fst (randomBytes 16 rng))),
       salt = Some (toString_hex (fst (randomBytes 16 (snd (randomBytes 16 rng))))),
       encryptedData = Some (toString_hex
          (aes_256_cbc_encrypt L (scryptSync L P (fst (randomBytes 16 (snd (randomBytes 16 rng)))))
             (fst (randomBytes 16 rng)) (utf8_encode (JSON_stringify L C)))),
       hmac = Some (toString_hex (hmac_sha256 L
          (scryptSync L P (fst (randomBytes 16 (snd (randomBytes 16 rng)))))
          (toString_hex
          (aes_256_cbc_encrypt L (scryptSync L P (fst (randomBytes 16 (snd (randomBytes 16 rng)))))
             (fst (randomBytes 16 rng)) (utf8_encode (JSON_stringify L C))))))\<rparr>"
  by (simp add: encryptWallets_def Let_def split_beta)

lemma encryptWallets_present:
  "\<exists>i s ct. iv (encryptWallets L rng C P) = Some i \<and> salt (encryptWallets L rng C P) = Some s
     \<and> encryptedData (encryptWallets L rng C P) = Some ct"
  by (simp add: encryptWallets_fields)

lemma encryptWallets_hmac:
  "hmac (encryptWallets L rng C P) = Some (recomputed_hmac L (encryptWallets L rng C P) P)"
  by (simp add: recomputed_hmac_def encryptWallets_fields hex_decode_toString_hex)

lemma encryptWallets_mac_matches: "stored_mac_matches L (encryptWallets L rng C P) P"
  by (simp add: stored_mac_matches_def encryptWallets_hmac)

lemma decryptWallets_mismatch:
  assumes "iv v = Some i" "salt v = Some s" "encryptedData v = Some ct"
    and "\<not> stored_mac_matches L v P"
  shows "decryptWallets L v P = Inl IntegrityError"
  using assms
  by (simp add: decryptWallets_def stored_mac_matches_def recomputed_hmac_def Buffer_from_hex_def)

lemma recomputed_hmac_ignores:
  "recomputed_hmac (L\<lparr>aes_decrypt_block := D', JSON_parse := J'\<rparr>) v P = recomputed_hmac L v P"
  "recomputed_hmac L (v\<lparr>hmac := m'\<rparr>) P = recomputed_hmac L v P"
  "recomputed_hmac L (v\<lparr>iv := x\<rparr>) P = recomputed_hmac L v P"
  by (simp_all add: recomputed_hmac_def)

text \<open>
  Claim C2. For every vault (with its \<^verbatim>\<open>iv\<close>, \<^verbatim>\<open>salt\<close> and \<^verbatim>\<open>encryptedData\<close>) and password:
  when the HMAC recomputed over the stored ciphertext under the derived key is not the
  stored \<^verbatim>\<open>hmac\<close>, \<^verbatim>\<open>decryptWallets\<close> fails with the integrity error, and it does so
  whatever the block decryption and the JSON parser are, that is, before anything is
  decrypted. In particular, for the vault that \<^verbatim>\<open>encryptWallets\<close> produced under password
  \<open>P1\<close>: any change of the stored \<^verbatim>\<open>hmac\<close> is detected; a changed ciphertext is detected
  when its HMAC differs; a password \<open>P2\<close> is refused when the HMAC under its key
  differs. (That the HMAC differs in the last two cases is a property of HMAC-SHA256 and
  scrypt, which are parameters here.)
\<close>

theorem tamper_and_wrong_password_detection:
  "(iv v = Some i \<and> salt v = Some s \<and> encryptedData v = Some ct
      \<and> hmac v \<noteq> Some (recomputed_hmac L v P) \<longrightarrow>
        decryptWallets L v P = Inl IntegrityError
        \<and> decryptWallets (L\<lparr>aes_decrypt_block := D', JSON_parse := J'\<rparr>) v P
            = Inl IntegrityError)
   \<and> (m' \<noteq> hmac (encryptWallets L rng C P1) \<longrightarrow>
        decryptWallets L ((encryptWallets L rng C P1)\<lparr>hmac := m'\<rparr>) P1 = Inl IntegrityError)
   \<and> (recomputed_hmac L ((encryptWallets L rng C P1)\<lparr>encryptedData := Some ct'\<rparr>) P1
         \<noteq> recomputed_hmac L (encryptWallets L rng C P1) P1 \<longrightarrow>
        decryptWallets L ((encryptWallets L rng C P1)\<lparr>encryptedData := Some ct'\<rparr>) P1
          = Inl IntegrityError)
   \<and> (recomputed_hmac L (encryptWallets L rng C P1) P2
         \<noteq> recomputed_hmac L (encryptWallets L rng C P1) P1 \<longrightarrow>
        decryptWallets L (encryptWallets L rng C P1) P2 = Inl IntegrityError)"
proof -
  let ?v0 = "encryptWallets L rng C P1"
  obtain i0 s0 ct0 where f0: "iv ?v0 = Some i0" "salt ?v0 = Some s0" "encryptedData ?v0 = Some ct0"
    using encryptWallets_present [of L rng C P1] by blast
  note h0 = encryptWallets_hmac [of L rng C P1]
  have general: "decryptWallets L v P = Inl IntegrityError
        \<and> decryptWallets (L\<lparr>aes_decrypt_block := D', JSON_parse := J'\<rparr>) v P
            = Inl IntegrityError"
    if "iv v = Some i" "salt v = Some s" "encryptedData v = Some ct"
      "hmac v \<noteq> Some (recomputed_hmac L v P)"
  proof -
    have "\<not> stored_mac_matches L v P"
      "\<not> stored_mac_matches (L\<lparr>aes_decrypt_block := D', JSON_parse := J'\<rparr>) v P"
      using that(4) by (simp_all add: stored_mac_matches_def recomputed_hmac_ignores)
    then show ?thesis
      using that(1-3) decryptWallets_mismatch by blast
  qed
  have mac: "decryptWallets L (?v0\<lparr>hmac := m'\<rparr>) P1 = Inl IntegrityError" if "m' \<noteq> hmac ?v0"
  proof -
    have "\<not> stored_mac_matches L (?v0\<lparr>hmac := m'\<rparr>) P1"
      using that h0 by (simp add: stored_mac_matches_def recomputed_hmac_ignores)
    then show ?thesis
      using decryptWallets_mismatch [of "?v0\<lparr>hmac := m'\<rparr>" i0 s0 ct0 L P1] f0 by simp
  qed
  have ct: "decryptWallets L (?v0\<lparr>encryptedData := Some ct'\<rparr>) P1 = Inl IntegrityError"
    if "recomputed_hmac L (?v0\<lparr>encryptedData := Some ct'\<rparr>) P1 \<noteq> recomputed_hmac L ?v0 P1"
  proof -
    have "\<not> stored_mac_matches L (?v0\<lparr>encryptedData := Some ct'\<rparr>) P1"
      using that h0 by (auto simp: stored_mac_matches_def)
    then show ?thesis
      using decryptWallets_mismatch [of "?v0\<lparr>encryptedData := Some ct'\<rparr>" i0 s0 ct' L P1] f0
      by simp
  qed
  have pw: "decryptWallets L ?v0 P2 = Inl IntegrityError"
    if "recomputed_hmac L ?v0 P2 \<noteq> recomputed_hmac L ?v0 P1"
  proof -
    have "\<not> stored_mac_matches L ?v0 P2"
      using that h0 by (auto simp: stored_mac_matches_def)
    then show ?thesis
      using decryptWallets_mismatch [OF f0] by simp
  qed
  show ?thesis
    using general mac ct pw by blast
qed

section \<open>Loading a vault\<close>

lemma loadWallets_failure:
  "walletsfile w = Stored v \<Longrightarrow> decryptWallets L v P = Inl e \<Longrightarrow>
     loadWallets L P w =
       w\<lparr>logger := logger w @ [(error_level, ''Failed to load wallets: '' @ message e)],
         wallets := []\<rparr>"
  by (simp add: loadWallets_def log_line_def)

lemma lost_field_fails:
  "iv v = None \<or> salt v = None \<or> encryptedData v = None \<or> hmac v = None \<Longrightarrow>
     \<exists>e. decryptWallets L v P = Inl e"
  by (auto simp: decryptWallets_def Buffer_from_hex_def Let_def split: option.splits sum.splits)

lemma mac_ignores_iv: "stored_mac_matches L (v\<lparr>iv := x\<rparr>) P = stored_mac_matches L v P"
  by (simp add: stored_mac_matches_def recomputed_hmac_ignores)

lemma decryptWallets_after_mac:
  assumes "iv v = Some i" "salt v = Some s" "encryptedData v = Some ct"
    and "stored_mac_matches L v P"
  shows "decryptWallets L v P =
     (case aes_256_cbc_decrypt L (scryptSync L P (hex_decode s)) (hex_decode i) (hex_decode ct) of
        Inl e \<Rightarrow> Inl e
      | Inr plain \<Rightarrow> JSON_parse L (utf8_decode plain))"
  using assms
  by (simp add: decryptWallets_def stored_mac_matches_def recomputed_hmac_def Buffer_from_hex_def)

lemma cbc_decrypt_first_block:
  "c \<noteq> [] \<Longrightarrow>
     cbc_decrypt D i c = xor_bytes (D (take 16 c)) i @ cbc_decrypt D (take 16 c) (drop 16 c)"
  by (subst cbc_decrypt.simps) simp

lemma tampered_iv_only_changes_first_block:
  assumes "c \<noteq> []" "length i = 16" "length i' = 16" "length (D (take 16 c)) = 16"
  shows "drop 16 (cbc_decrypt D i' c) = drop 16 (cbc_decrypt D i c)
       \<and> take 16 (cbc_decrypt D i' c) = xor_bytes (xor_bytes (take 16 (cbc_decrypt D i c)) i) i'"
proof -
  have l: "length (xor_bytes (D (take 16 c)) j) = 16" if "length j = 16" for j
    using that assms(4) by (simp add: length_xor_bytes)
  have "xor_bytes (xor_bytes (D (take 16 c)) i) i = D (take 16 c)"
    using assms(2,4) by (simp add: xor_bytes_cancel)
  then show ?thesis
    using l [OF assms(2)] l [OF assms(3)]
    by (simp add: cbc_decrypt_first_block [OF assms(1)])
qed

lemma e_iv: "hex_decode ''0104050a0d101316191c1f2225282b2e''
    = [1, 4, 5, 10, 13, 16, 19, 22, 25, 28, 31, 34, 37, 40, 43, 46]"
  by code_simp

lemma e_salt: "hex_decode ''3134373a3d404346494c4f5255585b5e''
    = [49, 52, 55, 58, 61, 64, 67, 70, 73, 76, 79, 82, 85, 88, 91, 94]"
  by code_simp

lemma e_ct: "hex_decode ''683474763d5b272a212423363d302f32''
    = [104, 52, 116, 118, 61, 91, 39, 42, 33, 36, 35, 54, 61, 48, 47, 50]"
  by code_simp

lemma e_mac: "stored_mac_matches toy_lib vault0 ''pw''"
  by code_simp

lemma e_cbc: "cbc_decrypt
     (toy_decrypt_block (toy_scrypt ''pw'' [49, 52, 55, 58, 61, 64, 67, 70, 73, 76, 79, 82, 85, 88, 91, 94]))
     [1, 4, 5, 10, 13, 16, 19, 22, 25, 28, 31, 34, 37, 40, 43, 46]
     [104, 52, 116, 118, 61, 91, 39, 42, 33, 36, 35, 54, 61, 48, 47, 50]
   = [91, 34, 99, 98, 34, 93, 10, 10, 10, 10, 10, 10, 10, 10, 10, 10]"
  by code_simp

lemma e_unpad: "pkcs7_unpad [91, 34, 99, 98, 34, 93, 10, 10, 10, 10, 10, 10, 10, 10, 10, 10]
    = Inr [91, 34, 99, 98, 34, 93]"
  by code_simp

lemma e_parse: "mini_parse (utf8_decode [91, 34, 99, 98, 34, 93]) = Inr [''cb'']"
  by code_simp

lemma decrypt_iv_flipped: "decryptWallets toy_lib vault0_iv_flipped ''pw'' = Inr [''cb'']"
proof -
  have m: "stored_mac_matches toy_lib vault0_iv_flipped ''pw''"
    unfolding vault0_iv_flipped_def mac_ignores_iv by (rule e_mac)
  have f: "iv vault0_iv_flipped = Some ''0104050a0d101316191c1f2225282b2e''"
    "salt vault0_iv_flipped = Some ''3134373a3d404346494c4f5255585b5e''"
    "encryptedData vault0_iv_flipped = Some ''683474763d5b272a212423363d302f32''"
    by (simp_all add: vault0_iv_flipped_def vault0_def)
  show ?thesis
    unfolding decryptWallets_after_mac [OF f m] e_iv e_salt e_ct
    by (simp add: aes_256_cbc_decrypt_def toy_lib_def e_cbc e_unpad e_parse)
qed

lemma e_iv0: "hex_decode ''0104070a0d101316191c1f2225282b2e''
    = [1, 4, 7, 10, 13, 16, 19, 22, 25, 28, 31, 34, 37, 40, 43, 46]"
  by code_simp

lemma e_cbc0: "cbc_decrypt
     (toy_decrypt_block (toy_scrypt ''pw'' [49, 52, 55, 58, 61, 64, 67, 70, 73, 76, 79, 82, 85, 88, 91, 94]))
     [1, 4, 7, 10, 13, 16, 19, 22, 25, 28, 31, 34, 37, 40, 43, 46]
     [104, 52, 116, 118, 61, 91, 39, 42, 33, 36, 35, 54, 61, 48, 47, 50]
   = [91, 34, 97, 98, 34, 93, 10, 10, 10, 10, 10, 10, 10, 10, 10, 10]"
  by code_simp

lemma e_unpad0: "pkcs7_unpad [91, 34, 97, 98, 34, 93, 10, 10, 10, 10, 10, 10, 10, 10, 10, 10]
    = Inr [91, 34, 97, 98, 34, 93]"
  by code_simp

lemma e_parse0: "mini_parse (utf8_decode [91, 34, 97, 98, 34, 93]) = Inr [''ab'']"
  by code_simp

lemma decrypt_vault0: "decryptWallets toy_lib vault0 ''pw'' = Inr [''ab'']"
proof -
  have f: "iv vault0 = Some ''0104070a0d101316191c1f2225282b2e''"
    "salt vault0 = Some ''3134373a3d404346494c4f5255585b5e''"
    "encryptedData vault0 = Some ''683474763d5b272a212423363d302f32''"
    by (simp_all add: vault0_def)
  show ?thesis
    unfolding decryptWallets_after_mac [OF f e_mac] e_iv0 e_salt e_ct
    by (simp add: aes_256_cbc_decrypt_def toy_lib_def e_cbc0 e_unpad0 e_parse0)
qed

lemma e_rb1: "fst (randomBytes 16 count_up) = [1, 4, 7, 10, 13, 16, 19, 22, 25, 28, 31, 34, 37, 40, 43, 46]"
  by code_simp

lemma e_rb2: "fst (randomBytes 16 (snd (randomBytes 16 count_up)))
    = [49, 52, 55, 58, 61, 64, 67, 70, 73, 76, 79, 82, 85, 88, 91, 94]"
  by code_simp

lemma e_enc: "aes_256_cbc_encrypt toy_lib
     (toy_scrypt ''pw'' [49, 52, 55, 58, 61, 64, 67, 70, 73, 76, 79, 82, 85, 88, 91, 94])
     [1, 4, 7, 10, 13, 16, 19, 22, 25, 28, 31, 34, 37, 40, 43, 46]
     (utf8_encode (mini_stringify [''ab'']))
   = [104, 52, 116, 118, 61, 91, 39, 42, 33, 36, 35, 54, 61, 48, 47, 50]"
  by code_simp

lemma e_hex1: "toString_hex [1, 4, 7, 10, 13, 16, 19, 22, 25, 28, 31, 34, 37, 40, 43, 46]
    = ''0104070a0d101316191c1f2225282b2e''"
  by code_simp

lemma e_hex2: "toString_hex [49, 52, 55, 58, 61, 64, 67, 70, 73, 76, 79, 82, 85, 88, 91, 94]
    = ''3134373a3d404346494c4f5255585b5e''"
  by code_simp

lemma e_hex3: "toString_hex [104, 52, 116, 118, 61, 91, 39, 42, 33, 36, 35, 54, 61, 48, 47, 50]
    = ''683474763d5b272a212423363d302f32''"
  by code_simp

lemma e_hex4: "toString_hex (toy_hmac
      (toy_scrypt ''pw'' [49, 52, 55, 58, 61, 64, 67, 70, 73, 76, 79, 82, 85, 88, 91, 94])
      ''683474763d5b272a212423363d302f32'') = ''7320''"
  by code_simp

lemma vault0_encrypted: "encryptWallets toy_lib count_up [''ab''] ''pw'' = vault0"
  unfolding encryptWallets_fields e_rb1 e_rb2
  by (simp add: toy_lib_def e_enc [unfolded toy_lib_def, simplified] e_hex1 e_hex2 e_hex3 e_hex4 vault0_def)

text \<open>
  Claim C7, evaluated at a vault whose \<^verbatim>\<open>iv\<close> field is corrupted. The claim asks that the
  load of a vault with a lost or corrupted field surfaces an integrity error and falls
  back to the empty credential set. The HMAC covers \<^verbatim>\<open>encryptedData\<close> only, so with one
  bit of the stored IV changed the check passes, the first plaintext block comes out
  changed (\<open>tampered_iv_only_changes_first_block\<close>), and \<^verbatim>\<open>loadWallets\<close> installs a
  different credential list with an \<^verbatim>\<open>info\<close> line and no error. (A lost field and
  every failure of \<^verbatim>\<open>decryptWallets\<close> are reported and fall back to the empty set:
  \<open>lost_field_fails\<close>, \<open>loadWallets_failure\<close>.)
\<close>

theorem loadWallets_accepts_tampered_iv:
  "loadWallets toy_lib ''pw'' (world0\<lparr>walletsfile := Stored vault0_iv_flipped\<rparr>)
     = world0\<lparr>walletsfile := Stored vault0_iv_flipped, wallets := [''cb''],
         logger := [(info, ''Loaded 1 wallets'')]\<rparr>
   \<and> loadWallets toy_lib ''pw'' (world0\<lparr>walletsfile := Stored vault0\<rparr>)
     = world0\<lparr>walletsfile := Stored vault0, wallets := [''ab''],
         logger := [(info, ''Loaded 1 wallets'')]\<rparr>
   \<and> vault0 = encryptWallets toy_lib count_up [''ab''] ''pw''
   \<and> vault0_iv_flipped = vault0\<lparr>iv := Some ''0104050a0d101316191c1f2225282b2e''\<rparr>"
proof -
  show ?thesis
    by (simp add: loadWallets_def world0_def decrypt_iv_flipped decrypt_vault0 log_line_def
        vault0_encrypted digits.simps hex_digit_def vault0_iv_flipped_def [symmetric])
qed

lemma recomputed_wrong_password:
  "recomputed_hmac toy_lib vault0 ''pw2'' \<noteq> recomputed_hmac toy_lib vault0 ''pw''"
  by code_simp

theorem tamper_and_wrong_password_detection_witness:
  "decryptWallets toy_lib vault0 ''pw2'' = Inl IntegrityError
   \<and> decryptWallets (toy_lib\<lparr>aes_decrypt_block := \<lambda>k b. b, JSON_parse := \<lambda>s. Inr []\<rparr>)
        vault0 ''pw2'' = Inl IntegrityError
   \<and> decryptWallets toy_lib (vault0\<lparr>hmac := Some ''7321''\<rparr>) ''pw'' = Inl IntegrityError"
proof -
  have f: "iv vault0 = Some ''0104070a0d101316191c1f2225282b2e''
      \<and> salt vault0 = Some ''3134373a3d404346494c4f5255585b5e''
      \<and> encryptedData vault0 = Some ''683474763d5b272a212423363d302f32''"
    by (simp add: vault0_def)
  have m: "hmac vault0 = Some (recomputed_hmac toy_lib vault0 ''pw'')"
    using e_mac by (simp add: stored_mac_matches_def)
  then have n: "hmac vault0 \<noteq> Some (recomputed_hmac toy_lib vault0 ''pw2'')"
    using recomputed_wrong_password by simp
  have x: "Some ''7321'' \<noteq> hmac vault0"
    by (simp add: vault0_def)
  note t = tamper_and_wrong_password_detection
      [where v = vault0 and i = "''0104070a0d101316191c1f2225282b2e''"
        and s = "''3134373a3d404346494c4f5255585b5e''"
        and ct = "''683474763d5b272a212423363d302f32''" and L = toy_lib and P = "''pw2''"
        and D' = "\<lambda>k b. b" and J' = "\<lambda>s. Inr []" and m' = "Some ''7321''"
        and rng = count_up and C = "[''ab'']" and ?P1.0 = "''pw''" and ct' = "[]"
        and ?P2.0 = "''pw2''", unfolded vault0_encrypted]
  show ?thesis
    using t f n x recomputed_wrong_password by blast
qed

section \<open>Properties of a submission\<close>

lemma run_settled: "settled t \<Longrightarrow> run W cfg k m (t, w) = (t, w)"
  by (simp add: run.simps)

lemma run_resume: "\<not> settled t \<Longrightarrow> run W cfg k m (t, w) = run W cfg k m (resume W cfg k m t w)"
  by (subst run.simps) simp

lemma start_valid: "privateKeyToAccount W k = Inr a \<Longrightarrow> start W cfg k m rc w = (AwaitNonce rc a, w)"
  by (simp add: start.simps)

lemma on_error_retry:
  "privateKeyToAccount W k = Inr a \<Longrightarrow> rc < 2 \<Longrightarrow>
     on_error W cfg k m e rc w =
       (AwaitNonce (rc + 1) a,
        sendMessage (chat_id m) (''Retrying ('' @ digits (rc + 1) @ ''/2)...'') w)"
  by (simp add: on_error.simps start_valid)

lemma on_error_final:
  "privateKeyToAccount W k = Inr a \<Longrightarrow> \<not> rc < 2 \<Longrightarrow>
     on_error W cfg k m e rc w =
       (Resolved None,
        saveTxHistory \<lparr>address = a, txHash = None, error = Some (message e), status = failed\<rparr>
          (sendMessage (chat_id m) (''Final attempt failed: '' @ message e) w))"
  by (simp add: on_error.simps)

text \<open>One attempt, from the reply to the nonce request to the reply to the submission.\<close>

lemma attempt_failed:
  assumes c: "contract w = Some c"
    and g: "getTransactionCount W (remote w) a = (Inr n, r1)"
    and s: "signTransaction W k (mint_tx W cfg a (Some n)) = Inr raw"
    and f: "sendSignedTransaction W r1 (mint_tx W cfg a (Some n)) raw = (x, r2)"
    and x: "reply_error x = Some e"
  shows "run W cfg k m (AwaitNonce rc a, w) =
     run W cfg k m (on_error W cfg k m e rc
       (w\<lparr>remote := r2,
          rpc_log := rpc_log w @ [GetTransactionCount a,
                                  SendSignedTransaction (mint_tx W cfg a (Some n)) raw]\<rparr>))"
proof -
  let ?w1 = "w\<lparr>remote := r1, rpc_log := rpc_log w @ [GetTransactionCount a]\<rparr>"
  let ?t = "mint_tx W cfg a (Some n)"
  have 1: "resume W cfg k m (AwaitNonce rc a) w = (AwaitSign rc a ?t, ?w1)"
    using c g by simp
  have 2: "resume W cfg k m (AwaitSign rc a ?t) ?w1 = (AwaitSend rc a ?t raw, ?w1)"
    using s by simp
  have 3: "resume W cfg k m (AwaitSend rc a ?t raw) ?w1 =
      on_error W cfg k m e rc
       (w\<lparr>remote := r2, rpc_log := rpc_log w @ [GetTransactionCount a, SendSignedTransaction ?t raw]\<rparr>)"
    using f x by (cases x) simp_all
  show ?thesis
    by (simp add: run_resume 1 2 3 del: resume.simps)
qed

lemma attempt_succeeded:
  assumes c: "contract w = Some c"
    and g: "getTransactionCount W (remote w) a = (Inr n, r1)"
    and s: "signTransaction W k (mint_tx W cfg a (Some n)) = Inr raw"
    and f: "sendSignedTransaction W r1 (mint_tx W cfg a (Some n)) raw = (Receipt h, r2)"
  shows "run W cfg k m (AwaitNonce rc a, w) =
     (Resolved (Some h),
      saveTxHistory \<lparr>address = a, txHash = Some h, error = None, status = success\<rparr>
        (sendMessage (chat_id m) (''Mint successful!'' @ [CHR 0x0A] @ EXPLORER_URL cfg @ h)
          (w\<lparr>remote := r2,
             rpc_log := rpc_log w @ [GetTransactionCount a,
                                     SendSignedTransaction (mint_tx W cfg a (Some n)) raw]\<rparr>)))"
proof -
  let ?w1 = "w\<lparr>remote := r1, rpc_log := rpc_log w @ [GetTransactionCount a]\<rparr>"
  let ?t = "mint_tx W cfg a (Some n)"
  have 1: "resume W cfg k m (AwaitNonce rc a) w = (AwaitSign rc a ?t, ?w1)"
    using c g by simp
  have 2: "resume W cfg k m (AwaitSign rc a ?t) ?w1 = (AwaitSend rc a ?t raw, ?w1)"
    using s by simp
  have 3: "resume W cfg k m (AwaitSend rc a ?t raw) ?w1 =
     (Resolved (Some h),
      saveTxHistory \<lparr>address = a, txHash = Some h, error = None, status = success\<rparr>
        (sendMessage (chat_id m) (''Mint successful!'' @ [CHR 0x0A] @ EXPLORER_URL cfg @ h)
          (w\<lparr>remote := r2,
             rpc_log := rpc_log w @ [GetTransactionCount a, SendSignedTransaction ?t raw]\<rparr>)))"
    using f by simp
  show ?thesis
    by (simp add: run_resume 1 2 3 run_settled del: resume.simps)
qed

lemma saveTxHistory_eq:
  "readable w \<Longrightarrow>
     saveTxHistory t w = w\<lparr>txfile := History (last_n 100 (entries w @ [stamp t (clock w)]))\<rparr>"
  by (cases "txfile w") (simp_all add: saveTxHistory_def readable_def entries_def push_capped_last_n)

lemma digits_1_2: "digits (Suc 0) = ''1''" "digits (Suc (Suc 0)) = ''2''"
  by (simp_all add: digits.simps hex_digit_def)

text \<open>
  Claim C4. A submission for a valid key, with the contract object in place and a
  readable history, whose first two attempts each fetch a nonce, sign and fail at the
  remote call (a refusal or the timer). If the third attempt's remote call fails as well,
  exactly three nonce requests and three submissions have been made, each submission
  with the nonce fetched in its own attempt, the promise resolves with no value, one
  final message is sent and one \<open>failed\<close> entry is recorded. If the third remote call
  returns a receipt, the promise resolves with it (the reply to the transaction that
  carries the third nonce) and one \<open>success\<close> entry is recorded.
\<close>

theorem retry_bound:
  assumes key: "privateKeyToAccount W k = Inr a"
    and con: "contract w = Some c"
    and rd: "readable w"
    and g1: "getTransactionCount W (remote w) a = (Inr n1, r1)"
    and s1: "signTransaction W k (mint_tx W cfg a (Some n1)) = Inr raw1"
    and f1: "sendSignedTransaction W r1 (mint_tx W cfg a (Some n1)) raw1 = (x1, r2)"
    and e1: "reply_error x1 = Some e1"
    and g2: "getTransactionCount W r2 a = (Inr n2, r3)"
    and s2: "signTransaction W k (mint_tx W cfg a (Some n2)) = Inr raw2"
    and f2: "sendSignedTransaction W r3 (mint_tx W cfg a (Some n2)) raw2 = (x2, r4)"
    and e2: "reply_error x2 = Some e2"
    and g3: "getTransactionCount W r4 a = (Inr n3, r5)"
    and s3: "signTransaction W k (mint_tx W cfg a (Some n3)) = Inr raw3"
    and f3: "sendSignedTransaction W r5 (mint_tx W cfg a (Some n3)) raw3 = (x3, r6)"
  shows "(reply_error x3 = Some e3 \<longrightarrow>
           sendMonadMintTx W cfg k m w =
             (Resolved None,
              w\<lparr>remote := r6,
                rpc_log := rpc_log w @
                  [GetTransactionCount a, SendSignedTransaction (mint_tx W cfg a (Some n1)) raw1,
                   GetTransactionCount a, SendSignedTransaction (mint_tx W cfg a (Some n2)) raw2,
                   GetTransactionCount a, SendSignedTransaction (mint_tx W cfg a (Some n3)) raw3],
                chat := chat w @
                  [(Chat (chat_id m), ''Retrying (1/2)...''),
                   (Chat (chat_id m), ''Retrying (2/2)...''),
                   (Chat (chat_id m), ''Final attempt failed: '' @ message e3)],
                txfile := History (last_n 100 (entries w @
                  [stamp \<lparr>address = a, txHash = None, error = Some (message e3),
                          status = failed\<rparr> (clock w)]))\<rparr>))
       \<and> (x3 = Receipt h \<longrightarrow>
           sendMonadMintTx W cfg k m w =
             (Resolved (Some h),
              w\<lparr>remote := r6,
                rpc_log := rpc_log w @
                  [GetTransactionCount a, SendSignedTransaction (mint_tx W cfg a (Some n1)) raw1,
                   GetTransactionCount a, SendSignedTransaction (mint_tx W cfg a (Some n2)) raw2,
                   GetTransactionCount a, SendSignedTransaction (mint_tx W cfg a (Some n3)) raw3],
                chat := chat w @
                  [(Chat (chat_id m), ''Retrying (1/2)...''),
                   (Chat (chat_id m), ''Retrying (2/2)...''),
                   (Chat (chat_id m), ''Mint successful!'' @ [CHR 0x0A] @ EXPLORER_URL cfg @ h)],
                txfile := History (last_n 100 (entries w @
                  [stamp \<lparr>address = a, txHash = Some h, error = None,
                          status = success\<rparr> (clock w)]))\<rparr>))"
proof -
  let ?t1 = "mint_tx W cfg a (Some n1)" and ?t2 = "mint_tx W cfg a (Some n2)"
    and ?t3 = "mint_tx W cfg a (Some n3)"
  define w1 where "w1 = sendMessage (chat_id m) ''Retrying (1/2)...''
      (w\<lparr>remote := r2, rpc_log := rpc_log w @ [GetTransactionCount a, SendSignedTransaction ?t1 raw1]\<rparr>)"
  define w2 where "w2 = sendMessage (chat_id m) ''Retrying (2/2)...''
      (w1\<lparr>remote := r4, rpc_log := rpc_log w1 @ [GetTransactionCount a, SendSignedTransaction ?t2 raw2]\<rparr>)"
  define w3 where "w3 = w2\<lparr>remote := r6,
      rpc_log := rpc_log w2 @ [GetTransactionCount a, SendSignedTransaction ?t3 raw3]\<rparr>"
  have a1: "run W cfg k m (AwaitNonce 0 a, w) = run W cfg k m (AwaitNonce (Suc 0) a, w1)"
    using attempt_failed [OF con g1 s1 f1 e1, of m 0] on_error_retry [OF key, of 0]
    by (simp add: w1_def digits_1_2)
  have c1: "contract w1 = Some c" "remote w1 = r2"
    using con by (simp_all add: w1_def sendMessage_def)
  have a2: "run W cfg k m (AwaitNonce (Suc 0) a, w1) = run W cfg k m (AwaitNonce (Suc (Suc 0)) a, w2)"
    using attempt_failed [OF c1(1) g2 [folded c1(2)] s2 f2 e2, of m "Suc 0"] on_error_retry [OF key, of "Suc 0"]
    by (simp add: w2_def digits_1_2)
  have c2: "contract w2 = Some c" "remote w2 = r4"
    using c1 by (simp_all add: w2_def sendMessage_def)
  have rd3: "readable w3" "entries w3 = entries w" "clock w3 = clock w"
    using rd by (simp_all add: w3_def w2_def w1_def sendMessage_def readable_def entries_def)
  have fail: "sendMonadMintTx W cfg k m w =
      (Resolved None,
       saveTxHistory \<lparr>address = a, txHash = None, error = Some (message e3), status = failed\<rparr>
         (sendMessage (chat_id m) (''Final attempt failed: '' @ message e3) w3))"
    if "reply_error x3 = Some e3"
    using attempt_failed [OF c2(1) g3 [folded c2(2)] s3 f3 that, of m "Suc (Suc 0)"]
      on_error_final [OF key, of "Suc (Suc 0)"]
    by (simp add: sendMonadMintTx_def start_valid [OF key] a1 a2 w3_def run_settled)
  have ok: "sendMonadMintTx W cfg k m w =
      (Resolved (Some h),
       saveTxHistory \<lparr>address = a, txHash = Some h, error = None, status = success\<rparr>
         (sendMessage (chat_id m) (''Mint successful!'' @ [CHR 0x0A] @ EXPLORER_URL cfg @ h) w3))"
    if "x3 = Receipt h"
    using attempt_succeeded [OF c2(1) g3 [folded c2(2)] s3 f3 [unfolded that], of m "Suc (Suc 0)"]
    by (simp add: sendMonadMintTx_def start_valid [OF key] a1 a2 w3_def)
  have rdm: "readable (sendMessage i t w3)" "entries (sendMessage i t w3) = entries w"
     "clock (sendMessage i t w3) = clock w" for i t
    using rd3 by (simp_all add: sendMessage_def readable_def entries_def)
  show ?thesis
    by (auto simp: fail ok saveTxHistory_eq rdm)
       (simp_all add: w3_def w2_def w1_def sendMessage_def)
qed

lemma toy_account_key1: "toy_account key1 = Inr addr1"
  by (simp add: toy_account_def key1_def addr1_def)

lemma digits_small: "digits 5 = ''5''" "digits 7 = ''7''" "digits 8 = ''8''" "digits 9 = ''9''"
  by (simp_all add: digits.simps hex_digit_def)

theorem retry_bound_witness:
  "sendMonadMintTx flaky_web3 config0 key1 admin_msg flaky_world =
     (Resolved (Some ''0xfeed''),
      flaky_world\<lparr>remote := 3,
        rpc_log :=
          [GetTransactionCount addr1,
           SendSignedTransaction (mint_tx flaky_web3 config0 addr1 (Some 7)) ''0xraw7'',
           GetTransactionCount addr1,
           SendSignedTransaction (mint_tx flaky_web3 config0 addr1 (Some 8)) ''0xraw8'',
           GetTransactionCount addr1,
           SendSignedTransaction (mint_tx flaky_web3 config0 addr1 (Some 9)) ''0xraw9''],
        chat :=
          [(Chat 42, ''Retrying (1/2)...''), (Chat 42, ''Retrying (2/2)...''),
           (Chat 42, ''Mint successful!'' @ [CHR 0x0A]
              @ ''https://testnet.monadexplorer.com/tx/0xfeed'')],
        txfile := History
          [\<lparr>address = addr1, txHash = Some ''0xfeed'', error = None, status = success,
            timestamp = 1700000000000\<rparr>]\<rparr>)"
proof -
  have key: "privateKeyToAccount flaky_web3 key1 = Inr addr1"
    by (simp add: flaky_web3_def toy_account_key1)
  have con: "contract flaky_world = Some ''0x1aa689f843077dca043df7d0dc0b3f62dbc6180d''"
    by (simp add: flaky_world_def)
  have rd: "readable flaky_world"
    by (simp add: flaky_world_def readable_def)
  have g1: "getTransactionCount flaky_web3 (remote flaky_world) addr1 = (Inr 7, 0)"
    by (simp add: flaky_web3_def flaky_world_def)
  have g2: "getTransactionCount flaky_web3 1 addr1 = (Inr 8, 1)"
    by (simp add: flaky_web3_def)
  have g3: "getTransactionCount flaky_web3 2 addr1 = (Inr 9, 2)"
    by (simp add: flaky_web3_def)
  have s: "signTransaction flaky_web3 key1 (mint_tx flaky_web3 config0 addr1 (Some 7)) = Inr ''0xraw7''"
    "signTransaction flaky_web3 key1 (mint_tx flaky_web3 config0 addr1 (Some 8)) = Inr ''0xraw8''"
    "signTransaction flaky_web3 key1 (mint_tx flaky_web3 config0 addr1 (Some 9)) = Inr ''0xraw9''"
    by (simp_all add: flaky_web3_def toy_sign_def mint_tx_def digits_small)
  have f1: "sendSignedTransaction flaky_web3 0 (mint_tx flaky_web3 config0 addr1 (Some 7)) ''0xraw7''
      = (NoReply, 1)"
    by (simp add: flaky_web3_def)
  have f2: "sendSignedTransaction flaky_web3 1 (mint_tx flaky_web3 config0 addr1 (Some 8)) ''0xraw8''
      = (NoReply, 2)"
    by (simp add: flaky_web3_def)
  have f3: "sendSignedTransaction flaky_web3 2 (mint_tx flaky_web3 config0 addr1 (Some 9)) ''0xraw9''
      = (Receipt ''0xfeed'', 3)"
    by (simp add: flaky_web3_def)
  have e: "reply_error NoReply = Some (Error ''Transaction timed out'')"
    by simp
  have "entries flaky_world = []" "clock flaky_world = 1700000000000"
    "rpc_log flaky_world = []" "chat flaky_world = []"
    "EXPLORER_URL config0 = ''https://testnet.monadexplorer.com/tx/''" "chat_id admin_msg = 42"
    by (simp_all add: flaky_world_def entries_def config0_def admin_msg_def)
  then show ?thesis
    using retry_bound [OF key con rd g1 s(1) f1 e g2 s(2) f2 e g3 s(3) f3,
        of "Error ''x''" admin_msg "''0xfeed''"]
    by (simp add: last_n_def stamp_def)
qed

section \<open>Rejection of the promise\<close>

lemma accepts_key: "accepts W k \<Longrightarrow> \<exists>a. privateKeyToAccount W k = Inr a"
  by (auto simp: accepts_def split: sum.splits)

lemma on_error_not_rejected:
  "accepts W k \<Longrightarrow> \<not> rejected (fst (on_error W cfg k m e rc w))"
  using on_error_retry [of W k _ rc cfg m e w] on_error_final [of W k _ rc cfg m e w]
  by (cases "rc < 2") (auto dest!: accepts_key)

lemma resume_not_rejected:
  "accepts W k \<Longrightarrow> \<not> rejected t \<Longrightarrow> \<not> rejected (fst (resume W cfg k m t w))"
  by (cases t)
     (auto simp: Let_def split_beta on_error_not_rejected
           split: sum.splits option.splits send_reply.splits)

lemma run_resolves:
  "accepts W k \<Longrightarrow> \<not> rejected (fst tw) \<Longrightarrow> \<exists>v. fst (run W cfg k m tw) = Resolved v"
proof (induction W cfg k m tw rule: run.induct)
  case (1 W cfg k m t w)
  show ?case
  proof (cases "settled t")
    case True
    with "1.prems"(2) show ?thesis by (cases t) (simp_all add: run_settled)
  next
    case False
    have "\<not> rejected (fst (resume W cfg k m t w))"
      using "1.prems" by (simp add: resume_not_rejected)
    from "1.IH" [OF False "1.prems"(1) this] show ?thesis
      by (simp add: run_resume [OF False])
  qed
qed

lemma start_all_calls:
  "list_all (accepts W) ks \<Longrightarrow>
     list_all (\<lambda>(k, t). accepts W k \<and> \<not> rejected t) (fst (start_all W cfg m ks w))"
proof (induction ks arbitrary: w)
  case Nil
  then show ?case by simp
next
  case (Cons k ks)
  obtain a where a: "privateKeyToAccount W k = Inr a"
    using Cons.prems accepts_key by auto
  show ?case
    using Cons by (simp add: start_valid [OF a] split_beta)
qed

lemma settle_all_calls:
  assumes "list_all (\<lambda>(k, t). accepts W k \<and> \<not> rejected t) (calls b)"
  shows "calls (fst (settle_all m (b, w))) = calls b"
    and "list_all (\<lambda>(k, t). settled t) (calls b) \<Longrightarrow> announced (fst (settle_all m (b, w)))"
proof -
  have "\<not> list_ex (\<lambda>(k, t). rejected t) (calls b)"
    using assms by (auto simp: list_all_iff list_ex_iff)
  then show "calls (fst (settle_all m (b, w))) = calls b"
    and "list_all (\<lambda>(k, t). settled t) (calls b) \<Longrightarrow> announced (fst (settle_all m (b, w)))"
    by (simp_all add: settle_all_def)
qed

lemma settle_all_ok:
  "list_all (\<lambda>(k, t). accepts W k \<and> \<not> rejected t) (calls b) \<Longrightarrow>
     batch_ok W (fst (settle_all m (b, w)))"
  using settle_all_calls [of W b m w] by (auto simp: batch_ok_def)

lemma deliver_ok: "batch_ok W (fst bw) \<Longrightarrow> batch_ok W (fst (deliver W cfg m i bw))"
proof -
  assume ok: "batch_ok W (fst bw)"
  obtain b w where bw: "bw = (b, w)" by (cases bw)
  show ?thesis
  proof (cases "i < length (calls b)")
    case False
    then show ?thesis using ok by (simp add: deliver_def bw)
  next
    case True
    obtain k t where kt: "calls b ! i = (k, t)" by (cases "calls b ! i")
    obtain t1 w1 where r: "resume W cfg k m t w = (t1, w1)" by (cases "resume W cfg k m t w")
    have "(k, t) \<in> set (calls b)" using True kt by (metis nth_mem)
    then have "accepts W k" "\<not> rejected t"
      using ok by (auto simp: batch_ok_def bw list_all_iff)
    then have "\<not> rejected t1"
      using resume_not_rejected [of W k t cfg m w] r by simp
    then have "list_all (\<lambda>(k, t). accepts W k \<and> \<not> rejected t) ((calls b)[i := (k, t1)])"
      using ok \<open>accepts W k\<close>
      by (auto simp: batch_ok_def bw list_all_iff dest!: set_update_subset_insert [THEN subsetD])
    then have "batch_ok W (fst (settle_all m (b\<lparr>calls := (calls b)[i := (k, t1)]\<rparr>, w1)))"
      by (intro settle_all_ok) simp
    then show ?thesis
      using True by (simp add: deliver_def bw kt r)
  qed
qed

lemma run_events_ok: "batch_ok W (fst bw) \<Longrightarrow> batch_ok W (fst (run_events W cfg m sched bw))"
  unfolding run_events_def
  by (induction sched arbitrary: bw) (simp_all add: deliver_ok)

lemma mint_command_ok:
  "list_all (accepts W) (WALLETS cfg) \<Longrightarrow> mint_command W cfg m w = Some bw \<Longrightarrow> batch_ok W (fst bw)"
  using start_all_calls [of W "WALLETS cfg" cfg m w]
  by (auto simp: mint_command_def split_beta intro!: settle_all_ok split: if_splits)

text \<open>
  For every wallet key that \<^verbatim>\<open>privateKeyToAccount\<close> accepts, whatever the endpoint, the
  signing and the world do, the promise of \<^verbatim>\<open>sendMonadMintTx\<close> resolves and never rejects;
  when the retry budget is exhausted the \<^verbatim>\<open>catch\<close> block sends the final message, hands
  one \<open>failed\<close> entry to \<^verbatim>\<open>saveTxHistory\<close> and resolves with no value. For a batch whose
  keys are all accepted, under every schedule of the event loop no call rejects, so
  \<^verbatim>\<open>Promise.all\<close> does not reject, and once every call has settled its callback has run.
\<close>

theorem valid_key_never_rejects:
  "(accepts W k \<longrightarrow>
      (\<exists>v. fst (sendMonadMintTx W cfg k m w) = Resolved v)
      \<and> (\<exists>a. privateKeyToAccount W k = Inr a
           \<and> on_error W cfg k m e 2 w =
               (Resolved None,
                saveTxHistory
                  \<lparr>address = a, txHash = None, error = Some (message e), status = failed\<rparr>
                  (sendMessage (chat_id m) (''Final attempt failed: '' @ message e) w))))
   \<and> (list_all (accepts W) (WALLETS cfg) \<and> mint_command W cfg m w = Some bw \<longrightarrow>
        \<not> list_ex (\<lambda>(k, t). rejected t) (calls (fst (run_events W cfg m sched bw)))
        \<and> (list_all (\<lambda>(k, t). settled t) (calls (fst (run_events W cfg m sched bw)))
             \<longrightarrow> announced (fst (run_events W cfg m sched bw))))"
proof -
  have one: "\<exists>v. fst (sendMonadMintTx W cfg k m w) = Resolved v" if acc: "accepts W k"
  proof -
    obtain a where a: "privateKeyToAccount W k = Inr a" using acc accepts_key by blast
    show ?thesis
      unfolding sendMonadMintTx_def
      by (rule run_resolves [OF acc]) (simp add: start_valid [OF a])
  qed
  have two: "\<exists>a. privateKeyToAccount W k = Inr a
           \<and> on_error W cfg k m e 2 w =
               (Resolved None,
                saveTxHistory
                  \<lparr>address = a, txHash = None, error = Some (message e), status = failed\<rparr>
                  (sendMessage (chat_id m) (''Final attempt failed: '' @ message e) w))"
    if "accepts W k"
    using accepts_key [OF that] on_error_final [of W k _ 2 cfg m e w] by auto
  have three: "batch_ok W (fst (run_events W cfg m sched bw))"
    if "list_all (accepts W) (WALLETS cfg)" "mint_command W cfg m w = Some bw"
    using run_events_ok [OF mint_command_ok [OF that]] .
  show ?thesis
    using one two three by (auto simp: batch_ok_def list_all_iff list_ex_iff)
qed

theorem valid_key_never_rejects_witness:
  "(\<exists>v. fst (sendMonadMintTx ledger_web3 config2 key1 admin_msg (ledger_world 0)) = Resolved v)
   \<and> \<not> list_ex (\<lambda>(k, t). rejected t)
        (calls (fst (run_events ledger_web3 config2 admin_msg [0, 1, 0, 1, 0, 1]
           (the (mint_command ledger_web3 config2 admin_msg (ledger_world 0))))))"
proof -
  have a: "accepts ledger_web3 key1"
    by (simp add: accepts_def ledger_web3_def toy_account_key1)
  have b: "list_all (accepts ledger_web3) (WALLETS config2)"
    using a by (simp add: config2_def)
  have c: "mint_command ledger_web3 config2 admin_msg (ledger_world 0)
      = Some (the (mint_command ledger_web3 config2 admin_msg (ledger_world 0)))"
    by (simp add: mint_command_def config2_def config0_def admin_msg_def split_beta)
  show ?thesis
    using valid_key_never_rejects [of ledger_web3 key1 config2 admin_msg "ledger_world 0"
        "Error []"
        "the (mint_command ledger_web3 config2 admin_msg (ledger_world 0))" "[0, 1, 0, 1, 0, 1]"]
      a b c
    by blast
qed

text \<open>
  Claim C9, evaluated at a key that \<^verbatim>\<open>privateKeyToAccount\<close> does not accept. The claim says
  that the promise of \<^verbatim>\<open>sendMonadMintTx\<close> resolves for every wallet key, every error being
  caught, with a \<open>failed\<close> entry appended once the retries are used up. For such a key
  every attempt throws at line 178 and is caught; after the last one the \<^verbatim>\<open>catch\<close> block
  sends the final message and then calls \<^verbatim>\<open>privateKeyToAccount\<close> again at line 209, where
  no \<^verbatim>\<open>try\<close> surrounds it: the promise rejects, no entry is appended and nothing was
  ever sent to the endpoint. For every accepted key the claim holds
  (\<open>valid_key_never_rejects\<close>).
\<close>

theorem sendMonadMintTx_rejects_invalid_key:
  "sendMonadMintTx ledger_web3 config0 ''bad'' admin_msg (ledger_world 0)
     = (Rejected (Error ''Private key must be 32 bytes long''),
        (ledger_world 0)\<lparr>chat :=
           [(Chat 42, ''Retrying (1/2)...''), (Chat 42, ''Retrying (2/2)...''),
            (Chat 42, ''Final attempt failed: Private key must be 32 bytes long'')]\<rparr>)"
  by (simp add: sendMonadMintTx_def start.simps on_error.simps ledger_web3_def toy_account_def
      run_settled sendMessage_def ledger_world_def admin_msg_def digits_1_2)

section \<open>Nonces\<close>

lemma sent_nonces_append: "sent_nonces a (xs @ ys) = sent_nonces a xs @ sent_nonces a ys"
  by (induction a xs rule: sent_nonces.induct) (simp_all split: option.splits)

lemma saveTxHistory_other:
  "rpc_log (saveTxHistory t w) = rpc_log w" "remote (saveTxHistory t w) = remote w"
  "contract (saveTxHistory t w) = contract w" "chat (saveTxHistory t w) = chat w"
  by (simp_all add: saveTxHistory_def log_line_def split: txfile.splits)

lemma submitted_once:
  assumes key: "privateKeyToAccount W k = Inr a"
    and sign: "\<forall>t. \<exists>raw. signTransaction W k t = Inr raw"
    and inv: "I (remote w)"
    and con: "contract w = Some c"
    and H1: "\<forall>r. I r \<longrightarrow> getTransactionCount W r a = (Inr (cnt r), r)"
    and H2: "\<forall>r raw. I r \<longrightarrow>
          (\<exists>h r'. sendSignedTransaction W r (mint_tx W cfg a (Some (cnt r))) raw = (Receipt h, r')
             \<and> cnt r' = Suc (cnt r) \<and> I r')"
  shows "sent_nonces a (rpc_log (snd (sendMonadMintTx W cfg k m w)))
           = sent_nonces a (rpc_log w) @ [cnt (remote w)]
       \<and> I (remote (snd (sendMonadMintTx W cfg k m w)))
       \<and> cnt (remote (snd (sendMonadMintTx W cfg k m w))) = Suc (cnt (remote w))
       \<and> contract (snd (sendMonadMintTx W cfg k m w)) = Some c"
proof -
  let ?t = "mint_tx W cfg a (Some (cnt (remote w)))"
  have g: "getTransactionCount W (remote w) a = (Inr (cnt (remote w)), remote w)"
    using H1 inv by simp
  obtain raw where s: "signTransaction W k ?t = Inr raw"
    using sign by blast
  obtain h r' where f: "sendSignedTransaction W (remote w) ?t raw = (Receipt h, r')"
    and r': "cnt r' = Suc (cnt (remote w))" "I r'"
    using H2 inv by blast
  have "sendMonadMintTx W cfg k m w =
     (Resolved (Some h),
      saveTxHistory \<lparr>address = a, txHash = Some h, error = None, status = success\<rparr>
        (sendMessage (chat_id m) (''Mint successful!'' @ [CHR 0x0A] @ EXPLORER_URL cfg @ h)
          (w\<lparr>remote := r',
             rpc_log := rpc_log w @ [GetTransactionCount a, SendSignedTransaction ?t raw]\<rparr>)))"
    unfolding sendMonadMintTx_def start_valid [OF key]
    by (rule attempt_succeeded [OF con g s f])
  then show ?thesis
    using r' con
    by (simp add: saveTxHistory_other sendMessage_def sent_nonces_append mint_tx_def)
qed

lemma upt_from_add_Suc: "[c ..< c + length (x # xs)] = c # [Suc c ..< Suc c + length xs]"
proof -
  have "[c ..< Suc (c + length xs)] = c # [Suc c ..< Suc (c + length xs)]"
    by (rule upt_conv_Cons) simp
  then show ?thesis by (simp only: list.size add_Suc_right add_Suc length_Cons add_0_right)
qed

text \<open>
  Claim C3, amended. The code has no allocator: each attempt takes as its nonce the
  pending transaction count that the endpoint reports to that attempt's own request.
  For submissions for one address made one after the other, each awaited before the
  next begins, against an endpoint that reports a count and, for a transaction carrying
  that count, returns a receipt and counts one more (on the endpoint states \<open>I\<close>
  holds for), the nonces sent are the consecutive counts: strictly increasing, none
  issued twice, in submission order.
\<close>

theorem sequential_nonces_increase:
  assumes key: "\<forall>k \<in> set ks. privateKeyToAccount W k = Inr a"
    and sign: "\<forall>k \<in> set ks. \<forall>t. \<exists>raw. signTransaction W k t = Inr raw"
    and inv: "I (remote w)"
    and con: "contract w = Some c"
    and H1: "\<forall>r. I r \<longrightarrow> getTransactionCount W r a = (Inr (cnt r), r)"
    and H2: "\<forall>r raw. I r \<longrightarrow>
          (\<exists>h r'. sendSignedTransaction W r (mint_tx W cfg a (Some (cnt r))) raw = (Receipt h, r')
             \<and> cnt r' = Suc (cnt r) \<and> I r')"
  shows "sent_nonces a (rpc_log (submit_in_turn W cfg m ks w))
           = sent_nonces a (rpc_log w) @ [cnt (remote w) ..< cnt (remote w) + length ks]
       \<and> sorted_wrt (<) [cnt (remote w) ..< cnt (remote w) + length ks]
       \<and> distinct [cnt (remote w) ..< cnt (remote w) + length ks]"
proof -
  have "sent_nonces a (rpc_log (submit_in_turn W cfg m ks w))
           = sent_nonces a (rpc_log w) @ [cnt (remote w) ..< cnt (remote w) + length ks]"
    using key sign inv con
  proof (induction ks arbitrary: w)
    case Nil
    then show ?case by simp
  next
    case (Cons k ks)
    let ?w1 = "snd (sendMonadMintTx W cfg k m w)"
    have k: "privateKeyToAccount W k = Inr a" "\<forall>t. \<exists>raw. signTransaction W k t = Inr raw"
      using Cons.prems by simp_all
    note one = submitted_once [OF k Cons.prems(3,4) H1 H2, of m]
    have "sent_nonces a (rpc_log (submit_in_turn W cfg m ks ?w1))
           = sent_nonces a (rpc_log ?w1) @ [cnt (remote ?w1) ..< cnt (remote ?w1) + length ks]"
      using Cons.prems one by (intro Cons.IH) simp_all
    moreover have "[cnt (remote w) ..< cnt (remote w) + length (k # ks)]
        = cnt (remote w) # [Suc (cnt (remote w)) ..< Suc (cnt (remote w)) + length ks]"
      by (rule upt_from_add_Suc)
    ultimately show ?case
      using one by (simp only: submit_in_turn.simps append_assoc append_Cons append_Nil)
  qed
  then show ?thesis by simp
qed

theorem sequential_nonces_increase_witness:
  "sent_nonces addr1
     (rpc_log (submit_in_turn ledger_web3 config0 admin_msg [key1, key1] (ledger_world (10 ^ 18))))
   = [5, 6]"
proof -
  let ?I = "\<lambda>r. GAS_LIMIT config0 * GAS_PRICE config0 \<le> balances r addr1"
  let ?cnt = "\<lambda>r. pending r addr1"
  have key: "\<forall>k \<in> set [key1, key1]. privateKeyToAccount ledger_web3 k = Inr addr1"
    by (simp add: ledger_web3_def toy_account_key1)
  have sign: "\<forall>k \<in> set [key1, key1]. \<forall>t. \<exists>raw. signTransaction ledger_web3 k t = Inr raw"
    by (simp add: ledger_web3_def toy_sign_def)
  have inv: "?I (remote (ledger_world (10 ^ 18)))"
    by (simp add: ledger_world_def config0_def)
  have con: "contract (ledger_world (10 ^ 18)) = Some ''0x1aa689f843077dca043df7d0dc0b3f62dbc6180d''"
    by (simp add: ledger_world_def)
  have H1: "\<forall>r. ?I r \<longrightarrow> getTransactionCount ledger_web3 r addr1 = (Inr (?cnt r), r)"
    by (simp add: ledger_web3_def)
  have H2: "\<forall>r raw. ?I r \<longrightarrow>
          (\<exists>h r'. sendSignedTransaction ledger_web3 r
               (mint_tx ledger_web3 config0 addr1 (Some (?cnt r))) raw = (Receipt h, r')
             \<and> ?cnt r' = Suc (?cnt r) \<and> ?I r')"
    by (simp add: ledger_web3_def ledger_send_def mint_tx_def)
  have "remote (ledger_world (10 ^ 18)) = \<lparr>pending = (\<lambda>a. 5), balances = (\<lambda>a. 10 ^ 18)\<rparr>"
    "rpc_log (ledger_world (10 ^ 18)) = []"
    by (simp_all add: ledger_world_def)
  then show ?thesis
    using sequential_nonces_increase [of "[key1, key1]" ledger_web3 addr1 ?I "ledger_world (10 ^ 18)"
        _ ?cnt config0 admin_msg, OF key sign inv con H1 H2]
    by (simp add: upt_rec)
qed

lemma mint_command_started:
  "mint_command ledger_web3 config2 admin_msg (ledger_world b) =
     Some (\<lparr>calls = [(key1, AwaitNonce 0 addr1), (key1, AwaitNonce 0 addr1)], announced = False\<rparr>,
           ledger_world b)"
  by (simp add: mint_command_def config2_def config0_def admin_msg_def ledger_web3_def
      start.simps toy_account_key1 settle_all_def)

lemma ledger_web3_fields:
  "privateKeyToAccount ledger_web3 = toy_account"
  "signTransaction ledger_web3 = toy_sign"
  "getTransactionCount ledger_web3 = (\<lambda>r a. (Inr (pending r a), r))"
  "getBalance ledger_web3 = (\<lambda>r a. (Inr (balances r a), r))"
  "sendSignedTransaction ledger_web3 = ledger_send"
  by (simp_all add: ledger_web3_def)

lemma ledger_world_fields:
  "remote (ledger_world b) = \<lparr>pending = (\<lambda>a. 5), balances = (\<lambda>a. b)\<rparr>"
  "rpc_log (ledger_world b) = []" "chat (ledger_world b) = []"
  "txfile (ledger_world b) = NoFile" "clock (ledger_world b) = 1700000000000"
  "contract (ledger_world b) = Some ''0x1aa689f843077dca043df7d0dc0b3f62dbc6180d''"
  by (simp_all add: ledger_world_def)

lemma mint_tx_fields:
  "from_addr (mint_tx W cfg a n) = a" "nonce (mint_tx W cfg a n) = n"
  "gas (mint_tx W cfg a n) = GAS_LIMIT cfg" "gasPrice (mint_tx W cfg a n) = GAS_PRICE cfg"
  by (simp_all add: mint_tx_def)

lemma config2_fields:
  "GAS_LIMIT config2 = 500000" "GAS_PRICE config2 = 1000000000"
  "GAS_LIMIT config0 = 500000" "GAS_PRICE config0 = 1000000000"
  by (simp_all add: config2_def config0_def)

text \<open>
  Claim C3 as stated fails for concurrent requests. The \<^verbatim>\<open>/mint\<close> handler starts all
  calls at once; with the same wallet listed twice and the replies arriving in turn, both
  calls are told the pending count 5 before either has submitted, and both send nonce 5.
\<close>

theorem concurrent_requests_reuse_nonce:
  "sent_nonces addr1
     (rpc_log (snd (run_events ledger_web3 config2 admin_msg [0, 1, 0, 1, 0, 1]
        (the (mint_command ledger_web3 config2 admin_msg (ledger_world (10 ^ 18)))))))
   = [5, 5]
   \<and> \<not> distinct (sent_nonces addr1
     (rpc_log (snd (run_events ledger_web3 config2 admin_msg [0, 1, 0, 1, 0, 1]
        (the (mint_command ledger_web3 config2 admin_msg (ledger_world (10 ^ 18))))))))"
  by (simp add: mint_command_started run_events_def deliver_def settle_all_def
      ledger_web3_fields ledger_world_fields mint_tx_fields config2_fields
      ledger_send_def toy_sign_def sendMessage_def saveTxHistory_def
      on_error.simps start.simps toy_account_key1 digits_small digits_1_2)

section \<open>The balance check\<close>

lemma mintNFT_insufficient_balance:
  assumes con: "contract w = Some c"
    and key: "privateKeyToAccount W (if take 2 k = ''0x'' then k else ''0x'' @ k) = Inr a"
    and bal: "getBalance W (remote w) a = (Inr b, r1)"
    and low: "b < GAS_LIMIT cfg * GAS_PRICE cfg"
  shows "mintNFT W fromWei cfg k chatId w =
     Some (notify cfg chatId
            (''Insufficient balance in '' @ a @ [CHR 0x0A] @ ''Has: '' @ fromWei b
             @ '' ETH'' @ [CHR 0x0A] @ ''Needs: ~''
             @ fromWei (GAS_LIMIT cfg * GAS_PRICE cfg) @ '' ETH'')
            (w\<lparr>remote := r1, rpc_log := rpc_log w @ [GetBalance a]\<rparr>))"
  using assms by (simp add: mintNFT_def Let_def)

lemma notify_rpc_log: "rpc_log (notify cfg chatId text w) = rpc_log w"
  by (simp add: notify_def Let_def)

text \<open>
  Claim C5, evaluated at a wallet whose balance is 0, less than
  \<open>GAS_LIMIT * GAS_PRICE\<close>. The claim asks for an immediate insufficient-balance
  error, before any nonce is fetched and without retry. \<^verbatim>\<open>sendMonadMintTx\<close> never asks for
  the balance: it fetches a nonce, signs and submits, the ledger refuses, and it does so
  three times before it reports the ledger's refusal. \<^verbatim>\<open>mintNFT\<close> of the second variant
  does check first (\<open>mintNFT_insufficient_balance\<close>): its only request is the balance.
\<close>

theorem sendMonadMintTx_has_no_balance_check:
  "balances (remote (ledger_world 0)) addr1 < GAS_LIMIT config0 * GAS_PRICE config0
   \<and> fst (sendMonadMintTx ledger_web3 config0 key1 admin_msg (ledger_world 0)) = Resolved None
   \<and> rpc_log (snd (sendMonadMintTx ledger_web3 config0 key1 admin_msg (ledger_world 0))) =
       [GetTransactionCount addr1,
        SendSignedTransaction (mint_tx ledger_web3 config0 addr1 (Some 5)) ''0xraw5'',
        GetTransactionCount addr1,
        SendSignedTransaction (mint_tx ledger_web3 config0 addr1 (Some 5)) ''0xraw5'',
        GetTransactionCount addr1,
        SendSignedTransaction (mint_tx ledger_web3 config0 addr1 (Some 5)) ''0xraw5'']
   \<and> chat (snd (sendMonadMintTx ledger_web3 config0 key1 admin_msg (ledger_world 0))) =
       [(Chat 42, ''Retrying (1/2)...''), (Chat 42, ''Retrying (2/2)...''),
        (Chat 42, ''Final attempt failed: insufficient funds for gas * price + value'')]
   \<and> rpc_log (the (mintNFT ledger_web3 digits config0 key1 42 (ledger_world 0)))
       = [GetBalance addr1]"
proof -
  have m: "mintNFT ledger_web3 digits config0 key1 42 (ledger_world 0) =
     Some (notify config0 42
            (''Insufficient balance in '' @ addr1 @ [CHR 0x0A] @ ''Has: '' @ digits 0
             @ '' ETH'' @ [CHR 0x0A] @ ''Needs: ~''
             @ digits (GAS_LIMIT config0 * GAS_PRICE config0) @ '' ETH'')
            ((ledger_world 0)\<lparr>remote := remote (ledger_world 0),
               rpc_log := rpc_log (ledger_world 0) @ [GetBalance addr1]\<rparr>))"
    by (rule mintNFT_insufficient_balance)
       (simp_all add: ledger_world_fields ledger_web3_fields config2_fields key1_def
          toy_account_key1 [unfolded key1_def])
  show ?thesis
    by (simp add: m notify_rpc_log sendMonadMintTx_def run.simps
      ledger_web3_fields ledger_world_fields mint_tx_fields config2_fields
      ledger_send_def toy_sign_def sendMessage_def saveTxHistory_def
      on_error.simps start.simps toy_account_key1 digits_small digits_1_2
      admin_msg_def)
qed

end
